theory Spec2Isabelle
  imports Main
begin

section \<open>JavaScript values\<close>

text \<open>
  The server is a thin adapter: a Model Context Protocol request names a tool and carries a
  JSON object of arguments; the handler of that tool checks the required arguments, calls one
  method of the NetSapiens client, which issues one HTTP request, and wraps the method's result
  in a JSON text reply.

  The dispatcher and the handlers are those of \<open>src/index.ts\<close>, the client is the class
  \<open>NetSapiensClient\<close> of \<open>src/netsapiens-client.ts\<close>.

  All values that flow through it are JSON values, extended with JavaScript's \<open>undefined\<close>
  (the value of a missing property). An object is the list of its properties, in insertion
  order, with pairwise distinct keys.

  A number is represented by the text that JavaScript prints for it (\<open>20\<close>, \<open>1.5\<close>,
  \<open>1e+21\<close>, \<open>Infinity\<close>): the program never computes with a number, it tests whether it is
  falsy, prints it into a string and serializes it, and passes it on otherwise. The printed
  text tells any two numbers apart but the two zeros, which both print \<open>0\<close> and are both
  falsy.
\<close>

datatype jsval =
    JUndefined
  | JNull
  | JBool bool
  | JNum string
  | JStr string
  | JArr "jsval list"
  | JObj "(string \<times> jsval) list"

text \<open>Truthiness, as tested by \<open>!x\<close>, \<open>x || y\<close> and \<open>x ? a : b\<close>. The falsy numbers are
  zero and \<open>NaN\<close>.\<close>

fun truthy :: "jsval \<Rightarrow> bool" where
  "truthy JUndefined = False"
| "truthy JNull = False"
| "truthy (JBool b) = b"
| "truthy (JNum n) = (n \<noteq> ''0'' \<and> n \<noteq> ''NaN'')"
| "truthy (JStr s) = (s \<noteq> [])"
| "truthy (JArr xs) = True"
| "truthy (JObj kvs) = True"

text \<open>\<open>a || b\<close>.\<close>

definition js_or :: "jsval \<Rightarrow> jsval \<Rightarrow> jsval" where
  "js_or a b = (if truthy a then a else b)"

text \<open>A default in a destructuring pattern or a parameter list (\<open>limit = 20\<close>)
  applies exactly when the value is \<open>undefined\<close>.\<close>

definition dflt :: "jsval \<Rightarrow> jsval \<Rightarrow> jsval" where
  "dflt v d = (if v = JUndefined then d else v)"

text \<open>Property access on an object given by its property list: a missing key reads as
  \<open>undefined\<close>.\<close>

definition get_prop :: "(string \<times> jsval) list \<Rightarrow> string \<Rightarrow> jsval" where
  "get_prop kvs k = (case map_of kvs k of None \<Rightarrow> JUndefined | Some v \<Rightarrow> v)"

definition isArray :: "jsval \<Rightarrow> bool" where
  "isArray v = (case v of JArr xs \<Rightarrow> True | _ \<Rightarrow> False)"

text \<open>The number of elements of an array or of characters of a string, as a number: it is
  below \<open>2 ^ 32\<close> and printed in plain decimal digits.\<close>

fun digits_of :: "nat \<Rightarrow> string" where
  "digits_of n = (if n < 10 then [''0123456789'' ! n]
                  else digits_of (n div 10) @ [''0123456789'' ! (n mod 10)])"

declare digits_of.simps [simp del]

text \<open>\<open>v?.length\<close>: \<open>undefined\<close> for \<open>undefined\<close> and \<open>null\<close>, the number of elements of
  an array, the number of characters of a string, the property of that name of an object.\<close>

definition opt_length :: "jsval \<Rightarrow> jsval" where
  "opt_length v =
     (case v of
        JArr xs \<Rightarrow> JNum (digits_of (length xs))
      | JStr s \<Rightarrow> JNum (digits_of (length s))
      | JObj kvs \<Rightarrow> get_prop kvs ''length''
      | _ \<Rightarrow> JUndefined)"

subsection \<open>Conversion to string\<close>

fun join :: "string \<Rightarrow> string list \<Rightarrow> string" where
  "join sep [] = []"
| "join sep [x] = x"
| "join sep (x # y # ys) = x @ sep @ join sep (y # ys)"

text \<open>
  The string a value turns into inside a template literal \<open>`...${v}...`\<close>, or \<open>None\<close> when
  the conversion throws a \<open>TypeError\<close>. It throws for an object that has a property named
  \<open>toString\<close> of its own: the value of that property, a JSON value, is not callable, and the
  inherited \<open>valueOf\<close> (or an own, not callable one) gives no primitive value either. An
  object without such a property is printed by the inherited method. An array prints its
  elements, separated by commas, \<open>null\<close> and \<open>undefined\<close> as the empty string, and throws
  when an element does.
\<close>

fun toStr :: "jsval \<Rightarrow> string option" where
  "toStr JUndefined = Some ''undefined''"
| "toStr JNull = Some ''null''"
| "toStr (JBool b) = Some (if b then ''true'' else ''false'')"
| "toStr (JNum n) = Some n"
| "toStr (JStr s) = Some s"
| "toStr (JArr xs) =
     map_option (join '','')
       (those (map (\<lambda>x. if x = JUndefined \<or> x = JNull then Some [] else toStr x) xs))"
| "toStr (JObj kvs) =
     (if ''toString'' \<in> set (map fst kvs) then None else Some ''[object Object]'')"

definition printable :: "jsval \<Rightarrow> bool" where
  "printable v = (toStr v \<noteq> None)"

text \<open>
  A template literal is the list of its parts, literal text and interpolated values. It is
  evaluated from left to right; \<open>None\<close> says that the conversion of a value has thrown the
  \<open>TypeError\<close> whose message (the engine's) is \<open>cannot_convert\<close>.
\<close>

datatype part = Lit string | Val jsval

fun template :: "part list \<Rightarrow> string option" where
  "template [] = Some []"
| "template (Lit s # ps) = map_option ((@) s) (template ps)"
| "template (Val v # ps) =
     (case toStr v of None \<Rightarrow> None | Some s \<Rightarrow> map_option ((@) s) (template ps))"

definition cannot_convert :: string where
  "cannot_convert = ''Cannot convert object to primitive value''"

subsection \<open>JSON.stringify\<close>

definition hex2 :: "nat \<Rightarrow> string" where
  "hex2 n = [''0123456789abcdef'' ! (n div 16), ''0123456789abcdef'' ! (n mod 16)]"

text \<open>String quoting of JSON: the double quote, the backslash and the control characters
  are escaped.\<close>

definition escape_char :: "char \<Rightarrow> string" where
  "escape_char c =
     (if c = CHR 0x22 then [CHR 0x5C, CHR 0x22]
      else if c = CHR 0x5C then [CHR 0x5C, CHR 0x5C]
      else if c = CHR 0x08 then [CHR 0x5C, CHR ''b'']
      else if c = CHR 0x0C then [CHR 0x5C, CHR ''f'']
      else if c = CHR 0x0A then [CHR 0x5C, CHR ''n'']
      else if c = CHR 0x0D then [CHR 0x5C, CHR ''r'']
      else if c = CHR 0x09 then [CHR 0x5C, CHR ''t'']
      else if of_char c < (32::nat)
           then [CHR 0x5C, CHR ''u'', CHR ''0'', CHR ''0''] @ hex2 (of_char c)
      else [c])"

definition quote :: "string \<Rightarrow> string" where
  "quote s = [CHR 0x22] @ concat (map escape_char s) @ [CHR 0x22]"

text \<open>The properties of an object that are serialized: those whose value is not
  \<open>undefined\<close>.\<close>

definition members :: "(string \<times> jsval) list \<Rightarrow> (string \<times> jsval) list" where
  "members kvs = filter (\<lambda>(k, v). v \<noteq> JUndefined) kvs"

text \<open>
  Serialization with an indentation of two spaces, \<open>ind\<close> being the current indentation.
  A finite number is written as it is printed, the other numbers are written \<open>null\<close>. An
  \<open>undefined\<close> array element is written \<open>null\<close>; an \<open>undefined\<close> property is left out (the
  list \<open>partial\<close> below holds the members that are written). A property \<open>toJSON\<close> of a JSON
  value is not callable and changes nothing.
\<close>

fun render :: "string \<Rightarrow> jsval \<Rightarrow> string" where
  "render ind JUndefined = ''null''"
| "render ind JNull = ''null''"
| "render ind (JBool b) = (if b then ''true'' else ''false'')"
| "render ind (JNum n) =
     (if n = ''Infinity'' \<or> n = ''-Infinity'' \<or> n = ''NaN'' then ''null'' else n)"
| "render ind (JStr s) = quote s"
| "render ind (JArr xs) =
     (if xs = [] then ''[]''
      else ''['' @ [CHR 0x0A] @ (ind @ ''  '')
           @ join ('','' @ [CHR 0x0A] @ (ind @ ''  '')) (map (render (ind @ ''  '')) xs)
           @ [CHR 0x0A] @ ind @ '']'')"
| "render ind (JObj kvs) =
     (let partial = concat (map (\<lambda>(k, v). if v = JUndefined then []
                                 else [quote k @ '': '' @ render (ind @ ''  '') v]) kvs)
      in if partial = [] then ''{}''
         else ''{'' @ [CHR 0x0A] @ (ind @ ''  '')
              @ join ('','' @ [CHR 0x0A] @ (ind @ ''  '')) partial
              @ [CHR 0x0A] @ ind @ ''}'')"

text \<open>\<open>JSON.stringify(o, null, 2)\<close> for an object literal \<open>o\<close> with the given properties,
  which is the only way the server calls it.\<close>

definition JSON_stringify :: "(string \<times> jsval) list \<Rightarrow> string" where
  "JSON_stringify props = render [] (JObj props)"

section \<open>The NetSapiens client\<close>

text \<open>
  The client owns an HTTP client bound to the base URL \<open>{apiUrl}/ns-api/v2\<close> with fixed
  headers. The remote platform is outside the program: it is a parameter of the model, a
  function that gives the outcome of a request. A request either is answered with a 2xx
  status and a parsed body, or the promise is rejected (non-2xx status, timeout, connection
  failure) with an error; the response interceptor logs the rejection and passes it on
  unchanged. All that the client reads of the error is its \<open>message\<close>, a text, so a
  rejection is modelled by that text (\<open>None\<close> when the error has no message).

  Every method of the client runs inside \<open>try\<close>, and its \<open>catch\<close> clause takes whatever is
  thrown: the rejection of the request, but also the \<open>TypeError\<close> of a path template that
  cannot be printed, which is thrown before the request is issued. For the \<open>catch\<close> clause
  the two are alike, an error with a message.

  Every client method returns its result together with the list of the requests it has
  issued, so that "no HTTP call is made" is a statement about that list.
\<close>

datatype http_method = GET | POST

record request =
  "method" :: http_method
  "url" :: string
  "params" :: "(string \<times> jsval) list"

datatype outcome = Response jsval | Rejected "string option"

type_synonym transport = "request \<Rightarrow> outcome"

text \<open>\<open>error.message\<close>.\<close>

definition the_message :: "string option \<Rightarrow> jsval" where
  "the_message msg = (case msg of None \<Rightarrow> JUndefined | Some s \<Rightarrow> JStr s)"

text \<open>\<open>this.client.get(path, {params})\<close>, where \<open>path\<close> is the outcome of evaluating the
  path expression: when that has thrown, no request is issued.\<close>

definition client_get ::
  "transport \<Rightarrow> string option \<Rightarrow> (string \<times> jsval) list \<Rightarrow> outcome \<times> request list" where
  "client_get t path ps =
     (case path of
        None \<Rightarrow> (Rejected (Some cannot_convert), [])
      | Some u \<Rightarrow> (let r = \<lparr>method = GET, url = u, params = ps\<rparr> in (t r, [r])))"

definition client_post ::
  "transport \<Rightarrow> string option \<Rightarrow> (string \<times> jsval) list \<Rightarrow> outcome \<times> request list" where
  "client_post t path ps =
     (case path of
        None \<Rightarrow> (Rejected (Some cannot_convert), [])
      | Some u \<Rightarrow> (let r = \<lparr>method = POST, url = u, params = ps\<rparr> in (t r, [r])))"

text \<open>The interface \<open>NetSapiensApiResponse\<close>; an optional field that is not set is
  \<open>undefined\<close>.\<close>

record api_response =
  "success" :: bool
  "data" :: jsval
  "error" :: jsval
  "message" :: jsval

text \<open>Search for users across all domains in NetSapiens. The third parameter has the default
  value 20, which JavaScript substitutes when the argument is \<open>undefined\<close>.\<close>

definition searchUsers ::
  "transport \<Rightarrow> jsval \<Rightarrow> jsval \<Rightarrow> jsval \<Rightarrow> api_response \<times> request list" where
  "searchUsers t query domain limit =
     (let endpoint =
            (if truthy domain then template [Lit ''/domains/'', Val domain, Lit ''/users'']
             else template [Lit ''/domains/~/users/~''])
      in case client_get t endpoint
                [(''user'', query), (''limit'', dflt limit (JNum ''20''))] of
           (Response d, reqs) \<Rightarrow>
             (\<lparr>success = True, data = (if isArray d then d else JArr [d]), error = JUndefined,
               message = JUndefined\<rparr>, reqs)
         | (Rejected msg, reqs) \<Rightarrow>
             (\<lparr>success = False, data = JArr [],
               error = js_or (the_message msg) (JStr ''Failed to search users''),
               message = JUndefined\<rparr>, reqs))"

text \<open>Get user details by user ID and domain.\<close>

definition getUser :: "transport \<Rightarrow> jsval \<Rightarrow> jsval \<Rightarrow> api_response \<times> request list" where
  "getUser t userId domain =
     (case client_get t
             (template [Lit ''/domains/'', Val domain, Lit ''/users/'', Val userId])
             [] of
        (Response d, reqs) \<Rightarrow>
          (\<lparr>success = True, data = d, error = JUndefined,
            message = JUndefined\<rparr>, reqs)
      | (Rejected msg, reqs) \<Rightarrow>
          (\<lparr>success = False, data = JUndefined,
            error = js_or (the_message msg) (JStr ''Failed to get user''),
            message = JUndefined\<rparr>, reqs))"

text \<open>Get call detail records (CDR). The single parameter \<open>p\<close> is the object with the optional
  keys \<open>startDate\<close>, \<open>endDate\<close>, \<open>user\<close>, \<open>domain\<close> and \<open>limit\<close>. If a specific user and domain
  are provided, the user-specific endpoint is used.\<close>

definition getCDRRecords ::
  "transport \<Rightarrow> (string \<times> jsval) list \<Rightarrow> api_response \<times> request list" where
  "getCDRRecords t p =
     (let endpoint =
            (if truthy (get_prop p ''user'') \<and> truthy (get_prop p ''domain'')
             then template [Lit ''/domains/'', Val (get_prop p ''domain''), Lit ''/users/'',
                            Val (get_prop p ''user''), Lit ''/cdrs'']
             else if truthy (get_prop p ''domain'')
             then template [Lit ''/domains/'', Val (get_prop p ''domain''), Lit ''/cdrs'']
             else template [Lit ''/cdrs''])
      in case client_get t endpoint
                [(''start_time'', get_prop p ''startDate''), (''end_time'', get_prop p ''endDate''),
                 (''limit'', js_or (get_prop p ''limit'') (JNum ''100''))] of
           (Response d, reqs) \<Rightarrow>
             (\<lparr>success = True, data = (if isArray d then d else JArr [d]), error = JUndefined,
               message = JUndefined\<rparr>, reqs)
         | (Rejected msg, reqs) \<Rightarrow>
             (\<lparr>success = False, data = JArr [],
               error = js_or (the_message msg) (JStr ''Failed to get CDR records''),
               message = JUndefined\<rparr>, reqs))"

text \<open>Get domain information.\<close>

definition getDomains :: "transport \<Rightarrow> api_response \<times> request list" where
  "getDomains t =
     (case client_get t (template [Lit ''/domains'']) [] of
        (Response d, reqs) \<Rightarrow>
          (\<lparr>success = True, data = (if isArray d then d else JArr [d]), error = JUndefined,
            message = JUndefined\<rparr>, reqs)
      | (Rejected msg, reqs) \<Rightarrow>
          (\<lparr>success = False, data = JArr [],
            error = js_or (the_message msg) (JStr ''Failed to get domains''),
            message = JUndefined\<rparr>, reqs))"

text \<open>Get specific domain information.\<close>

definition getDomain :: "transport \<Rightarrow> jsval \<Rightarrow> api_response \<times> request list" where
  "getDomain t domain =
     (case client_get t (template [Lit ''/domains/'', Val domain]) [] of
        (Response d, reqs) \<Rightarrow>
          (\<lparr>success = True, data = d, error = JUndefined,
            message = JUndefined\<rparr>, reqs)
      | (Rejected msg, reqs) \<Rightarrow>
          (\<lparr>success = False, data = JUndefined,
            error = js_or (the_message msg) (JStr ''Failed to get domain''),
            message = JUndefined\<rparr>, reqs))"

text \<open>Get user devices.\<close>

definition getUserDevices :: "transport \<Rightarrow> jsval \<Rightarrow> jsval \<Rightarrow> api_response \<times> request list" where
  "getUserDevices t userId domain =
     (case client_get t
             (template [Lit ''/domains/'', Val domain, Lit ''/users/'', Val userId,
                        Lit ''/devices''])
             [] of
        (Response d, reqs) \<Rightarrow>
          (\<lparr>success = True, data = (if isArray d then d else JArr [d]), error = JUndefined,
            message = JUndefined\<rparr>, reqs)
      | (Rejected msg, reqs) \<Rightarrow>
          (\<lparr>success = False, data = JArr [],
            error = js_or (the_message msg) (JStr ''Failed to get user devices''),
            message = JUndefined\<rparr>, reqs))"

text \<open>Get phone numbers for a domain.\<close>

definition getPhoneNumbers :: "transport \<Rightarrow> jsval \<Rightarrow> jsval \<Rightarrow> api_response \<times> request list" where
  "getPhoneNumbers t domain limit =
     (case client_get t
             (template [Lit ''/domains/'', Val domain, Lit ''/phonenumbers''])
             [(''limit'', limit)] of
        (Response d, reqs) \<Rightarrow>
          (\<lparr>success = True, data = (if isArray d then d else JArr [d]), error = JUndefined,
            message = JUndefined\<rparr>, reqs)
      | (Rejected msg, reqs) \<Rightarrow>
          (\<lparr>success = False, data = JArr [],
            error = js_or (the_message msg) (JStr ''Failed to get phone numbers''),
            message = JUndefined\<rparr>, reqs))"

text \<open>Get specific phone number details.\<close>

definition getPhoneNumber :: "transport \<Rightarrow> jsval \<Rightarrow> jsval \<Rightarrow> api_response \<times> request list" where
  "getPhoneNumber t domain phoneNumber =
     (case client_get t
             (template [Lit ''/domains/'', Val domain, Lit ''/phonenumbers/'', Val phoneNumber])
             [] of
        (Response d, reqs) \<Rightarrow>
          (\<lparr>success = True, data = d, error = JUndefined,
            message = JUndefined\<rparr>, reqs)
      | (Rejected msg, reqs) \<Rightarrow>
          (\<lparr>success = False, data = JUndefined,
            error = js_or (the_message msg) (JStr ''Failed to get phone number''),
            message = JUndefined\<rparr>, reqs))"

text \<open>Get call queues for a domain.\<close>

definition getCallQueues :: "transport \<Rightarrow> jsval \<Rightarrow> api_response \<times> request list" where
  "getCallQueues t domain =
     (case client_get t (template [Lit ''/domains/'', Val domain, Lit ''/callqueues'']) [] of
        (Response d, reqs) \<Rightarrow>
          (\<lparr>success = True, data = (if isArray d then d else JArr [d]), error = JUndefined,
            message = JUndefined\<rparr>, reqs)
      | (Rejected msg, reqs) \<Rightarrow>
          (\<lparr>success = False, data = JArr [],
            error = js_or (the_message msg) (JStr ''Failed to get call queues''),
            message = JUndefined\<rparr>, reqs))"

text \<open>Get specific call queue details.\<close>

definition getCallQueue :: "transport \<Rightarrow> jsval \<Rightarrow> jsval \<Rightarrow> api_response \<times> request list" where
  "getCallQueue t domain queueId =
     (case client_get t
             (template [Lit ''/domains/'', Val domain, Lit ''/callqueues/'', Val queueId])
             [] of
        (Response d, reqs) \<Rightarrow>
          (\<lparr>success = True, data = d, error = JUndefined,
            message = JUndefined\<rparr>, reqs)
      | (Rejected msg, reqs) \<Rightarrow>
          (\<lparr>success = False, data = JUndefined,
            error = js_or (the_message msg) (JStr ''Failed to get call queue''),
            message = JUndefined\<rparr>, reqs))"

text \<open>Get agents for a call queue.\<close>

definition getCallQueueAgents ::
  "transport \<Rightarrow> jsval \<Rightarrow> jsval \<Rightarrow> api_response \<times> request list" where
  "getCallQueueAgents t domain queueId =
     (case client_get t
             (template [Lit ''/domains/'', Val domain, Lit ''/callqueues/'', Val queueId,
                        Lit ''/agents''])
             [] of
        (Response d, reqs) \<Rightarrow>
          (\<lparr>success = True, data = (if isArray d then d else JArr [d]), error = JUndefined,
            message = JUndefined\<rparr>, reqs)
      | (Rejected msg, reqs) \<Rightarrow>
          (\<lparr>success = False, data = JArr [],
            error = js_or (the_message msg) (JStr ''Failed to get call queue agents''),
            message = JUndefined\<rparr>, reqs))"

text \<open>Get agents for a domain.\<close>

definition getAgents :: "transport \<Rightarrow> jsval \<Rightarrow> api_response \<times> request list" where
  "getAgents t domain =
     (case client_get t (template [Lit ''/domains/'', Val domain, Lit ''/agents'']) [] of
        (Response d, reqs) \<Rightarrow>
          (\<lparr>success = True, data = (if isArray d then d else JArr [d]), error = JUndefined,
            message = JUndefined\<rparr>, reqs)
      | (Rejected msg, reqs) \<Rightarrow>
          (\<lparr>success = False, data = JArr [],
            error = js_or (the_message msg) (JStr ''Failed to get agents''),
            message = JUndefined\<rparr>, reqs))"

text \<open>Login an agent to a call queue.\<close>

definition loginAgent ::
  "transport \<Rightarrow> jsval \<Rightarrow> jsval \<Rightarrow> jsval \<Rightarrow> api_response \<times> request list" where
  "loginAgent t domain queueId agentId =
     (case client_post t
             (template [Lit ''/domains/'', Val domain, Lit ''/callqueues/'', Val queueId,
                        Lit ''/agents/'', Val agentId, Lit ''/login''])
             [] of
        (Response d, reqs) \<Rightarrow>
          (\<lparr>success = True, data = d, error = JUndefined,
            message = JStr ''Agent logged in successfully''\<rparr>, reqs)
      | (Rejected msg, reqs) \<Rightarrow>
          (\<lparr>success = False, data = JUndefined,
            error = js_or (the_message msg) (JStr ''Failed to login agent''),
            message = JUndefined\<rparr>, reqs))"

text \<open>Logout an agent from a call queue.\<close>

definition logoutAgent ::
  "transport \<Rightarrow> jsval \<Rightarrow> jsval \<Rightarrow> jsval \<Rightarrow> api_response \<times> request list" where
  "logoutAgent t domain queueId agentId =
     (case client_post t
             (template [Lit ''/domains/'', Val domain, Lit ''/callqueues/'', Val queueId,
                        Lit ''/agents/'', Val agentId, Lit ''/logout''])
             [] of
        (Response d, reqs) \<Rightarrow>
          (\<lparr>success = True, data = d, error = JUndefined,
            message = JStr ''Agent logged out successfully''\<rparr>, reqs)
      | (Rejected msg, reqs) \<Rightarrow>
          (\<lparr>success = False, data = JUndefined,
            error = js_or (the_message msg) (JStr ''Failed to logout agent''),
            message = JUndefined\<rparr>, reqs))"

text \<open>Get auto attendants for a domain.\<close>

definition getAutoAttendants :: "transport \<Rightarrow> jsval \<Rightarrow> api_response \<times> request list" where
  "getAutoAttendants t domain =
     (case client_get t
             (template [Lit ''/domains/'', Val domain, Lit ''/autoattendants''])
             [] of
        (Response d, reqs) \<Rightarrow>
          (\<lparr>success = True, data = (if isArray d then d else JArr [d]), error = JUndefined,
            message = JUndefined\<rparr>, reqs)
      | (Rejected msg, reqs) \<Rightarrow>
          (\<lparr>success = False, data = JArr [],
            error = js_or (the_message msg) (JStr ''Failed to get auto attendants''),
            message = JUndefined\<rparr>, reqs))"

text \<open>Get answer rules for a user.\<close>

definition getUserAnswerRules ::
  "transport \<Rightarrow> jsval \<Rightarrow> jsval \<Rightarrow> api_response \<times> request list" where
  "getUserAnswerRules t userId domain =
     (case client_get t
             (template [Lit ''/domains/'', Val domain, Lit ''/users/'', Val userId,
                        Lit ''/answerrules''])
             [] of
        (Response d, reqs) \<Rightarrow>
          (\<lparr>success = True, data = (if isArray d then d else JArr [d]), error = JUndefined,
            message = JUndefined\<rparr>, reqs)
      | (Rejected msg, reqs) \<Rightarrow>
          (\<lparr>success = False, data = JArr [],
            error = js_or (the_message msg) (JStr ''Failed to get answer rules''),
            message = JUndefined\<rparr>, reqs))"

text \<open>Get specific answer rule for a user.\<close>

definition getUserAnswerRule ::
  "transport \<Rightarrow> jsval \<Rightarrow> jsval \<Rightarrow> jsval \<Rightarrow> api_response \<times> request list" where
  "getUserAnswerRule t userId domain timeframe =
     (case client_get t
             (template [Lit ''/domains/'', Val domain, Lit ''/users/'', Val userId,
                        Lit ''/answerrules/'', Val timeframe])
             [] of
        (Response d, reqs) \<Rightarrow>
          (\<lparr>success = True, data = d, error = JUndefined,
            message = JUndefined\<rparr>, reqs)
      | (Rejected msg, reqs) \<Rightarrow>
          (\<lparr>success = False, data = JUndefined,
            error = js_or (the_message msg) (JStr ''Failed to get answer rule''),
            message = JUndefined\<rparr>, reqs))"

text \<open>Get user greetings.\<close>

definition getUserGreetings ::
  "transport \<Rightarrow> jsval \<Rightarrow> jsval \<Rightarrow> api_response \<times> request list" where
  "getUserGreetings t userId domain =
     (case client_get t
             (template [Lit ''/domains/'', Val domain, Lit ''/users/'', Val userId,
                        Lit ''/greetings''])
             [] of
        (Response d, reqs) \<Rightarrow>
          (\<lparr>success = True, data = (if isArray d then d else JArr [d]), error = JUndefined,
            message = JUndefined\<rparr>, reqs)
      | (Rejected msg, reqs) \<Rightarrow>
          (\<lparr>success = False, data = JArr [],
            error = js_or (the_message msg) (JStr ''Failed to get user greetings''),
            message = JUndefined\<rparr>, reqs))"

text \<open>Get user voicemails.\<close>

definition getUserVoicemails ::
  "transport \<Rightarrow> jsval \<Rightarrow> jsval \<Rightarrow> api_response \<times> request list" where
  "getUserVoicemails t userId domain =
     (case client_get t
             (template [Lit ''/domains/'', Val domain, Lit ''/users/'', Val userId,
                        Lit ''/voicemail''])
             [] of
        (Response d, reqs) \<Rightarrow>
          (\<lparr>success = True, data = (if isArray d then d else JArr [d]), error = JUndefined,
            message = JUndefined\<rparr>, reqs)
      | (Rejected msg, reqs) \<Rightarrow>
          (\<lparr>success = False, data = JArr [],
            error = js_or (the_message msg) (JStr ''Failed to get user voicemails''),
            message = JUndefined\<rparr>, reqs))"

text \<open>Get music on hold files for a domain.\<close>

definition getMusicOnHold :: "transport \<Rightarrow> jsval \<Rightarrow> api_response \<times> request list" where
  "getMusicOnHold t domain =
     (case client_get t (template [Lit ''/domains/'', Val domain, Lit ''/moh'']) [] of
        (Response d, reqs) \<Rightarrow>
          (\<lparr>success = True, data = (if isArray d then d else JArr [d]), error = JUndefined,
            message = JUndefined\<rparr>, reqs)
      | (Rejected msg, reqs) \<Rightarrow>
          (\<lparr>success = False, data = JArr [],
            error = js_or (the_message msg) (JStr ''Failed to get music on hold''),
            message = JUndefined\<rparr>, reqs))"

text \<open>Get billing information for a domain.\<close>

definition getBilling :: "transport \<Rightarrow> jsval \<Rightarrow> api_response \<times> request list" where
  "getBilling t domain =
     (case client_get t (template [Lit ''/domains/'', Val domain, Lit ''/billing'']) [] of
        (Response d, reqs) \<Rightarrow>
          (\<lparr>success = True, data = d, error = JUndefined,
            message = JUndefined\<rparr>, reqs)
      | (Rejected msg, reqs) \<Rightarrow>
          (\<lparr>success = False, data = JUndefined,
            error = js_or (the_message msg) (JStr ''Failed to get billing information''),
            message = JUndefined\<rparr>, reqs))"

text \<open>Get agent statistics.\<close>

definition getAgentStatistics ::
  "transport \<Rightarrow> jsval \<Rightarrow> jsval \<Rightarrow> api_response \<times> request list" where
  "getAgentStatistics t domain agentId =
     (let endpoint =
            (if truthy agentId
             then template [Lit ''/domains/'', Val domain, Lit ''/statistics/agent/'',
                            Val agentId]
             else template [Lit ''/domains/'', Val domain, Lit ''/statistics/agent''])
      in case client_get t endpoint [] of
           (Response d, reqs) \<Rightarrow>
             (\<lparr>success = True, data = d, error = JUndefined,
               message = JUndefined\<rparr>, reqs)
         | (Rejected msg, reqs) \<Rightarrow>
             (\<lparr>success = False, data = JUndefined,
               error = js_or (the_message msg) (JStr ''Failed to get agent statistics''),
               message = JUndefined\<rparr>, reqs))"

text \<open>Test API connectivity.\<close>

definition testConnection :: "transport \<Rightarrow> api_response \<times> request list" where
  "testConnection t =
     (case client_get t (template [Lit ''/domains'']) [(''limit'', JNum ''1'')] of
        (Response d, reqs) \<Rightarrow>
          (\<lparr>success = True, data = JBool True, error = JUndefined,
            message = JStr ''Connection successful''\<rparr>, reqs)
      | (Rejected msg, reqs) \<Rightarrow>
          (\<lparr>success = False, data = JBool False,
            error = js_or (the_message msg) (JStr ''Connection failed''),
            message = JUndefined\<rparr>, reqs))"

section \<open>The client's methods, taken together\<close>

text \<open>
  To speak about every method at once, a call of a method is a value: the method and its
  arguments. Running a call is calling the method.
\<close>

datatype gateway_call =
    SearchUsers jsval jsval jsval
  | GetUser jsval jsval
  | GetCDRRecords "(string \<times> jsval) list"
  | GetDomains
  | GetDomain jsval
  | GetUserDevices jsval jsval
  | GetPhoneNumbers jsval jsval
  | GetPhoneNumber jsval jsval
  | GetCallQueues jsval
  | GetCallQueue jsval jsval
  | GetCallQueueAgents jsval jsval
  | GetAgents jsval
  | LoginAgent jsval jsval jsval
  | LogoutAgent jsval jsval jsval
  | GetAutoAttendants jsval
  | GetUserAnswerRules jsval jsval
  | GetUserAnswerRule jsval jsval jsval
  | GetUserGreetings jsval jsval
  | GetUserVoicemails jsval jsval
  | GetMusicOnHold jsval
  | GetBilling jsval
  | GetAgentStatistics jsval jsval
  | TestConnection

fun invoke :: "transport \<Rightarrow> gateway_call \<Rightarrow> api_response \<times> request list" where
  "invoke t (SearchUsers a b c) = searchUsers t a b c"
| "invoke t (GetUser a b) = getUser t a b"
| "invoke t (GetCDRRecords a) = getCDRRecords t a"
| "invoke t GetDomains = getDomains t"
| "invoke t (GetDomain a) = getDomain t a"
| "invoke t (GetUserDevices a b) = getUserDevices t a b"
| "invoke t (GetPhoneNumbers a b) = getPhoneNumbers t a b"
| "invoke t (GetPhoneNumber a b) = getPhoneNumber t a b"
| "invoke t (GetCallQueues a) = getCallQueues t a"
| "invoke t (GetCallQueue a b) = getCallQueue t a b"
| "invoke t (GetCallQueueAgents a b) = getCallQueueAgents t a b"
| "invoke t (GetAgents a) = getAgents t a"
| "invoke t (LoginAgent a b c) = loginAgent t a b c"
| "invoke t (LogoutAgent a b c) = logoutAgent t a b c"
| "invoke t (GetAutoAttendants a) = getAutoAttendants t a"
| "invoke t (GetUserAnswerRules a b) = getUserAnswerRules t a b"
| "invoke t (GetUserAnswerRule a b c) = getUserAnswerRule t a b c"
| "invoke t (GetUserGreetings a b) = getUserGreetings t a b"
| "invoke t (GetUserVoicemails a b) = getUserVoicemails t a b"
| "invoke t (GetMusicOnHold a) = getMusicOnHold t a"
| "invoke t (GetBilling a) = getBilling t a"
| "invoke t (GetAgentStatistics a b) = getAgentStatistics t a b"
| "invoke t TestConnection = testConnection t"

text \<open>The values a call passes to the method; for \<open>getCDRRecords\<close>, the values of the
  properties of its parameter object.\<close>

fun call_arguments :: "gateway_call \<Rightarrow> jsval list" where
  "call_arguments (SearchUsers a b c) = [a, b, c]"
| "call_arguments (GetUser a b) = [a, b]"
| "call_arguments (GetCDRRecords a) = map snd a"
| "call_arguments GetDomains = []"
| "call_arguments (GetDomain a) = [a]"
| "call_arguments (GetUserDevices a b) = [a, b]"
| "call_arguments (GetPhoneNumbers a b) = [a, b]"
| "call_arguments (GetPhoneNumber a b) = [a, b]"
| "call_arguments (GetCallQueues a) = [a]"
| "call_arguments (GetCallQueue a b) = [a, b]"
| "call_arguments (GetCallQueueAgents a b) = [a, b]"
| "call_arguments (GetAgents a) = [a]"
| "call_arguments (LoginAgent a b c) = [a, b, c]"
| "call_arguments (LogoutAgent a b c) = [a, b, c]"
| "call_arguments (GetAutoAttendants a) = [a]"
| "call_arguments (GetUserAnswerRules a b) = [a, b]"
| "call_arguments (GetUserAnswerRule a b c) = [a, b, c]"
| "call_arguments (GetUserGreetings a b) = [a, b]"
| "call_arguments (GetUserVoicemails a b) = [a, b]"
| "call_arguments (GetMusicOnHold a) = [a]"
| "call_arguments (GetBilling a) = [a]"
| "call_arguments (GetAgentStatistics a b) = [a, b]"
| "call_arguments TestConnection = []"

text \<open>The declared result type of a method: a list (\<open>NetSapiensApiResponse<X[]>\<close>), a
  Boolean (\<open>testConnection\<close>), or a single entity.\<close>

datatype result_kind = ListResult | SingleResult | BooleanResult

fun kind_of :: "gateway_call \<Rightarrow> result_kind" where
  "kind_of (SearchUsers a b c) = ListResult"
| "kind_of (GetUser a b) = SingleResult"
| "kind_of (GetCDRRecords a) = ListResult"
| "kind_of GetDomains = ListResult"
| "kind_of (GetDomain a) = SingleResult"
| "kind_of (GetUserDevices a b) = ListResult"
| "kind_of (GetPhoneNumbers a b) = ListResult"
| "kind_of (GetPhoneNumber a b) = SingleResult"
| "kind_of (GetCallQueues a) = ListResult"
| "kind_of (GetCallQueue a b) = SingleResult"
| "kind_of (GetCallQueueAgents a b) = ListResult"
| "kind_of (GetAgents a) = ListResult"
| "kind_of (LoginAgent a b c) = SingleResult"
| "kind_of (LogoutAgent a b c) = SingleResult"
| "kind_of (GetAutoAttendants a) = ListResult"
| "kind_of (GetUserAnswerRules a b) = ListResult"
| "kind_of (GetUserAnswerRule a b c) = SingleResult"
| "kind_of (GetUserGreetings a b) = ListResult"
| "kind_of (GetUserVoicemails a b) = ListResult"
| "kind_of (GetMusicOnHold a) = ListResult"
| "kind_of (GetBilling a) = SingleResult"
| "kind_of (GetAgentStatistics a b) = SingleResult"
| "kind_of TestConnection = BooleanResult"

text \<open>The empty value of each kind.\<close>

fun empty_value :: "result_kind \<Rightarrow> jsval" where
  "empty_value ListResult = JArr []"
| "empty_value SingleResult = JUndefined"
| "empty_value BooleanResult = JBool False"

text \<open>The text each method's \<open>catch\<close> clause falls back to.\<close>

fun fallback_text :: "gateway_call \<Rightarrow> string" where
  "fallback_text (SearchUsers a b c) = ''Failed to search users''"
| "fallback_text (GetUser a b) = ''Failed to get user''"
| "fallback_text (GetCDRRecords a) = ''Failed to get CDR records''"
| "fallback_text GetDomains = ''Failed to get domains''"
| "fallback_text (GetDomain a) = ''Failed to get domain''"
| "fallback_text (GetUserDevices a b) = ''Failed to get user devices''"
| "fallback_text (GetPhoneNumbers a b) = ''Failed to get phone numbers''"
| "fallback_text (GetPhoneNumber a b) = ''Failed to get phone number''"
| "fallback_text (GetCallQueues a) = ''Failed to get call queues''"
| "fallback_text (GetCallQueue a b) = ''Failed to get call queue''"
| "fallback_text (GetCallQueueAgents a b) = ''Failed to get call queue agents''"
| "fallback_text (GetAgents a) = ''Failed to get agents''"
| "fallback_text (LoginAgent a b c) = ''Failed to login agent''"
| "fallback_text (LogoutAgent a b c) = ''Failed to logout agent''"
| "fallback_text (GetAutoAttendants a) = ''Failed to get auto attendants''"
| "fallback_text (GetUserAnswerRules a b) = ''Failed to get answer rules''"
| "fallback_text (GetUserAnswerRule a b c) = ''Failed to get answer rule''"
| "fallback_text (GetUserGreetings a b) = ''Failed to get user greetings''"
| "fallback_text (GetUserVoicemails a b) = ''Failed to get user voicemails''"
| "fallback_text (GetMusicOnHold a) = ''Failed to get music on hold''"
| "fallback_text (GetBilling a) = ''Failed to get billing information''"
| "fallback_text (GetAgentStatistics a b) = ''Failed to get agent statistics''"
| "fallback_text TestConnection = ''Connection failed''"

section \<open>The tool handlers\<close>

text \<open>
  The arguments of a tool call are a JSON object, or are missing altogether (the protocol
  makes them optional): \<open>None\<close> is JavaScript's \<open>undefined\<close>. A handler that destructures
  missing arguments raises a \<open>TypeError\<close>; its message is the engine's.
\<close>

type_synonym arguments = "(string \<times> jsval) list option"

datatype ErrorCode = InvalidParams | MethodNotFound | InternalError

text \<open>The numbers of the protocol's error codes, those of JSON-RPC 2.0.\<close>

fun code_number :: "ErrorCode \<Rightarrow> int" where
  "code_number MethodNotFound = - 32601"
| "code_number InvalidParams = - 32602"
| "code_number InternalError = - 32603"

datatype exn = McpError ErrorCode string | TypeError string

definition cannot_destructure :: "string \<Rightarrow> string" where
  "cannot_destructure k =
     ''Cannot destructure property '' @ [CHR 0x27] @ k @ [CHR 0x27] @ '' of ''
       @ [CHR 0x27] @ ''args'' @ [CHR 0x27] @ '' as it is undefined.''"

record text_block =
  "type" :: string
  "text" :: string

record tool_reply =
  "content" :: "text_block list"

definition text_reply :: "string \<Rightarrow> tool_reply" where
  "text_reply s = \<lparr>content = [\<lparr>type = ''text'', text = s\<rparr>]\<rparr>"

text \<open>
  Each handler returns either the exception it throws or its reply, and the requests that
  were issued on the way. After the check of the required arguments a handler throws in one
  case only: the sentence for the \<open>message\<close> of the reply is a template literal, and the
  conversion of a value in it may throw a \<open>TypeError\<close>. The client's method has returned by
  then, so its requests have been issued.
\<close>

type_synonym handler = "transport \<Rightarrow> arguments \<Rightarrow> (exn + tool_reply) \<times> request list"

definition handleSearchUsers :: handler where
  "handleSearchUsers t args =
     (case args of
        None \<Rightarrow> (Inl (TypeError (cannot_destructure ''query'')), [])
      | Some m \<Rightarrow>
          (let query = get_prop m ''query'';
               domain = get_prop m ''domain'';
               limit = dflt (get_prop m ''limit'') (JNum ''20'')
           in if \<not> truthy query
              then (Inl (McpError InvalidParams ''Query parameter is required''), [])
              else (case searchUsers t query domain limit of
                      (result, reqs) \<Rightarrow>
                        (case (if success result
                               then template ([Lit ''Found '',
                                               Val (js_or (opt_length (data result)) (JNum ''0'')),
                                               Lit ('' users matching '' @ [CHR 0x22]),
                                               Val query, Lit [CHR 0x22]]
                                              @ (if truthy domain then [Lit '' in domain '', Val domain] else []))
                               else template [Lit ''Search failed: '', Val (error result)]) of
                           None \<Rightarrow> (Inl (TypeError cannot_convert), reqs)
                         | Some msg \<Rightarrow>
                             (Inr (text_reply (JSON_stringify
                                [(''success'', JBool (success result)),
                                 (''message'', JStr msg),
                                 (''data'', data result),
                                 (''error'', error result)])),
                              reqs)))))"

definition handleGetUser :: handler where
  "handleGetUser t args =
     (case args of
        None \<Rightarrow> (Inl (TypeError (cannot_destructure ''userId'')), [])
      | Some m \<Rightarrow>
          (let userId = get_prop m ''userId'';
               domain = get_prop m ''domain''
           in if \<not> truthy userId \<or> \<not> truthy domain
              then (Inl (McpError InvalidParams
                           ''userId and domain parameters are required''), [])
              else (case getUser t userId domain of
                      (result, reqs) \<Rightarrow>
                        (case (if success result
                               then template [Lit ''Retrieved user details for '', Val userId]
                               else template [Lit ''Failed to get user: '', Val (error result)]) of
                           None \<Rightarrow> (Inl (TypeError cannot_convert), reqs)
                         | Some msg \<Rightarrow>
                             (Inr (text_reply (JSON_stringify
                                [(''success'', JBool (success result)),
                                 (''message'', JStr msg),
                                 (''data'', data result),
                                 (''error'', error result)])),
                              reqs)))))"

definition handleGetCDRRecords :: handler where
  "handleGetCDRRecords t args =
     (case args of
        None \<Rightarrow> (Inl (TypeError (cannot_destructure ''startDate'')), [])
      | Some m \<Rightarrow>
          (let startDate = get_prop m ''startDate'';
               endDate = get_prop m ''endDate'';
               user = get_prop m ''user'';
               domain = get_prop m ''domain'';
               limit = dflt (get_prop m ''limit'') (JNum ''100'')
           in (case getCDRRecords t
                      [(''startDate'', startDate), (''endDate'', endDate), (''user'', user),
                       (''domain'', domain), (''limit'', limit)] of
                 (result, reqs) \<Rightarrow>
                   (case (if success result
                          then template [Lit ''Retrieved '',
                                         Val (js_or (opt_length (data result)) (JNum ''0'')),
                                         Lit '' CDR records'']
                          else template [Lit ''Failed to get CDR records: '',
                                         Val (error result)]) of
                      None \<Rightarrow> (Inl (TypeError cannot_convert), reqs)
                    | Some msg \<Rightarrow>
                        (Inr (text_reply (JSON_stringify
                           [(''success'', JBool (success result)),
                            (''message'', JStr msg),
                            (''data'', data result),
                            (''error'', error result)])),
                         reqs)))))"

definition handleGetDomains :: handler where
  "handleGetDomains t args =
     (case getDomains t of
        (result, reqs) \<Rightarrow>
          (case (if success result
                 then template [Lit ''Retrieved '',
                                Val (js_or (opt_length (data result)) (JNum ''0'')),
                                Lit '' domains'']
                 else template [Lit ''Failed to get domains: '', Val (error result)]) of
             None \<Rightarrow> (Inl (TypeError cannot_convert), reqs)
           | Some msg \<Rightarrow>
               (Inr (text_reply (JSON_stringify
                  [(''success'', JBool (success result)),
                   (''message'', JStr msg),
                   (''data'', data result),
                   (''error'', error result)])),
                reqs)))"

definition handleGetDomain :: handler where
  "handleGetDomain t args =
     (case args of
        None \<Rightarrow> (Inl (TypeError (cannot_destructure ''domain'')), [])
      | Some m \<Rightarrow>
          (let domain = get_prop m ''domain''
           in if \<not> truthy domain
              then (Inl (McpError InvalidParams ''domain parameter is required''), [])
              else (case getDomain t domain of
                      (result, reqs) \<Rightarrow>
                        (case (if success result
                               then template [Lit ''Retrieved domain information for '',
                                              Val domain]
                               else template [Lit ''Failed to get domain: '',
                                              Val (error result)]) of
                           None \<Rightarrow> (Inl (TypeError cannot_convert), reqs)
                         | Some msg \<Rightarrow>
                             (Inr (text_reply (JSON_stringify
                                [(''success'', JBool (success result)),
                                 (''message'', JStr msg),
                                 (''data'', data result),
                                 (''error'', error result)])),
                              reqs)))))"

definition handleGetUserDevices :: handler where
  "handleGetUserDevices t args =
     (case args of
        None \<Rightarrow> (Inl (TypeError (cannot_destructure ''userId'')), [])
      | Some m \<Rightarrow>
          (let userId = get_prop m ''userId'';
               domain = get_prop m ''domain''
           in if \<not> truthy userId \<or> \<not> truthy domain
              then (Inl (McpError InvalidParams
                           ''userId and domain parameters are required''), [])
              else (case getUserDevices t userId domain of
                      (result, reqs) \<Rightarrow>
                        (case (if success result
                               then template [Lit ''Retrieved '',
                                              Val (js_or (opt_length (data result)) (JNum ''0'')),
                                              Lit '' devices for user '', Val userId, Lit ''@'',
                                              Val domain]
                               else template [Lit ''Failed to get user devices: '',
                                              Val (error result)]) of
                           None \<Rightarrow> (Inl (TypeError cannot_convert), reqs)
                         | Some msg \<Rightarrow>
                             (Inr (text_reply (JSON_stringify
                                [(''success'', JBool (success result)),
                                 (''message'', JStr msg),
                                 (''data'', data result),
                                 (''error'', error result)])),
                              reqs)))))"

definition handleGetPhoneNumbers :: handler where
  "handleGetPhoneNumbers t args =
     (case args of
        None \<Rightarrow> (Inl (TypeError (cannot_destructure ''domain'')), [])
      | Some m \<Rightarrow>
          (let domain = get_prop m ''domain'';
               limit = get_prop m ''limit''
           in if \<not> truthy domain
              then (Inl (McpError InvalidParams ''domain parameter is required''), [])
              else (case getPhoneNumbers t domain limit of
                      (result, reqs) \<Rightarrow>
                        (case (if success result
                               then template [Lit ''Retrieved '',
                                              Val (js_or (opt_length (data result)) (JNum ''0'')),
                                              Lit '' phone numbers for domain '', Val domain]
                               else template [Lit ''Failed to get phone numbers: '',
                                              Val (error result)]) of
                           None \<Rightarrow> (Inl (TypeError cannot_convert), reqs)
                         | Some msg \<Rightarrow>
                             (Inr (text_reply (JSON_stringify
                                [(''success'', JBool (success result)),
                                 (''message'', JStr msg),
                                 (''data'', data result),
                                 (''error'', error result)])),
                              reqs)))))"

definition handleGetPhoneNumber :: handler where
  "handleGetPhoneNumber t args =
     (case args of
        None \<Rightarrow> (Inl (TypeError (cannot_destructure ''domain'')), [])
      | Some m \<Rightarrow>
          (let domain = get_prop m ''domain'';
               phoneNumber = get_prop m ''phoneNumber''
           in if \<not> truthy domain \<or> \<not> truthy phoneNumber
              then (Inl (McpError InvalidParams
                           ''domain and phoneNumber parameters are required''), [])
              else (case getPhoneNumber t domain phoneNumber of
                      (result, reqs) \<Rightarrow>
                        (case (if success result
                               then template [Lit ''Retrieved phone number details for '',
                                              Val phoneNumber]
                               else template [Lit ''Failed to get phone number: '',
                                              Val (error result)]) of
                           None \<Rightarrow> (Inl (TypeError cannot_convert), reqs)
                         | Some msg \<Rightarrow>
                             (Inr (text_reply (JSON_stringify
                                [(''success'', JBool (success result)),
                                 (''message'', JStr msg),
                                 (''data'', data result),
                                 (''error'', error result)])),
                              reqs)))))"

definition handleGetCallQueues :: handler where
  "handleGetCallQueues t args =
     (case args of
        None \<Rightarrow> (Inl (TypeError (cannot_destructure ''domain'')), [])
      | Some m \<Rightarrow>
          (let domain = get_prop m ''domain''
           in if \<not> truthy domain
              then (Inl (McpError InvalidParams ''domain parameter is required''), [])
              else (case getCallQueues t domain of
                      (result, reqs) \<Rightarrow>
                        (case (if success result
                               then template [Lit ''Retrieved '',
                                              Val (js_or (opt_length (data result)) (JNum ''0'')),
                                              Lit '' call queues for domain '', Val domain]
                               else template [Lit ''Failed to get call queues: '',
                                              Val (error result)]) of
                           None \<Rightarrow> (Inl (TypeError cannot_convert), reqs)
                         | Some msg \<Rightarrow>
                             (Inr (text_reply (JSON_stringify
                                [(''success'', JBool (success result)),
                                 (''message'', JStr msg),
                                 (''data'', data result),
                                 (''error'', error result)])),
                              reqs)))))"

definition handleGetCallQueue :: handler where
  "handleGetCallQueue t args =
     (case args of
        None \<Rightarrow> (Inl (TypeError (cannot_destructure ''domain'')), [])
      | Some m \<Rightarrow>
          (let domain = get_prop m ''domain'';
               queueId = get_prop m ''queueId''
           in if \<not> truthy domain \<or> \<not> truthy queueId
              then (Inl (McpError InvalidParams
                           ''domain and queueId parameters are required''), [])
              else (case getCallQueue t domain queueId of
                      (result, reqs) \<Rightarrow>
                        (case (if success result
                               then template [Lit ''Retrieved call queue details for '',
                                              Val queueId]
                               else template [Lit ''Failed to get call queue: '',
                                              Val (error result)]) of
                           None \<Rightarrow> (Inl (TypeError cannot_convert), reqs)
                         | Some msg \<Rightarrow>
                             (Inr (text_reply (JSON_stringify
                                [(''success'', JBool (success result)),
                                 (''message'', JStr msg),
                                 (''data'', data result),
                                 (''error'', error result)])),
                              reqs)))))"

definition handleGetCallQueueAgents :: handler where
  "handleGetCallQueueAgents t args =
     (case args of
        None \<Rightarrow> (Inl (TypeError (cannot_destructure ''domain'')), [])
      | Some m \<Rightarrow>
          (let domain = get_prop m ''domain'';
               queueId = get_prop m ''queueId''
           in if \<not> truthy domain \<or> \<not> truthy queueId
              then (Inl (McpError InvalidParams
                           ''domain and queueId parameters are required''), [])
              else (case getCallQueueAgents t domain queueId of
                      (result, reqs) \<Rightarrow>
                        (case (if success result
                               then template [Lit ''Retrieved '',
                                              Val (js_or (opt_length (data result)) (JNum ''0'')),
                                              Lit '' agents for call queue '', Val queueId]
                               else template [Lit ''Failed to get call queue agents: '',
                                              Val (error result)]) of
                           None \<Rightarrow> (Inl (TypeError cannot_convert), reqs)
                         | Some msg \<Rightarrow>
                             (Inr (text_reply (JSON_stringify
                                [(''success'', JBool (success result)),
                                 (''message'', JStr msg),
                                 (''data'', data result),
                                 (''error'', error result)])),
                              reqs)))))"

definition handleGetAgents :: handler where
  "handleGetAgents t args =
     (case args of
        None \<Rightarrow> (Inl (TypeError (cannot_destructure ''domain'')), [])
      | Some m \<Rightarrow>
          (let domain = get_prop m ''domain''
           in if \<not> truthy domain
              then (Inl (McpError InvalidParams ''domain parameter is required''), [])
              else (case getAgents t domain of
                      (result, reqs) \<Rightarrow>
                        (case (if success result
                               then template [Lit ''Retrieved '',
                                              Val (js_or (opt_length (data result)) (JNum ''0'')),
                                              Lit '' agents for domain '', Val domain]
                               else template [Lit ''Failed to get agents: '',
                                              Val (error result)]) of
                           None \<Rightarrow> (Inl (TypeError cannot_convert), reqs)
                         | Some msg \<Rightarrow>
                             (Inr (text_reply (JSON_stringify
                                [(''success'', JBool (success result)),
                                 (''message'', JStr msg),
                                 (''data'', data result),
                                 (''error'', error result)])),
                              reqs)))))"

definition handleLoginAgent :: handler where
  "handleLoginAgent t args =
     (case args of
        None \<Rightarrow> (Inl (TypeError (cannot_destructure ''domain'')), [])
      | Some m \<Rightarrow>
          (let domain = get_prop m ''domain'';
               queueId = get_prop m ''queueId'';
               agentId = get_prop m ''agentId''
           in if \<not> truthy domain \<or> \<not> truthy queueId \<or> \<not> truthy agentId
              then (Inl (McpError InvalidParams
                           ''domain, queueId, and agentId parameters are required''), [])
              else (case loginAgent t domain queueId agentId of
                      (result, reqs) \<Rightarrow>
                        (Inr (text_reply (JSON_stringify
                           [(''success'', JBool (success result)),
                            (''message'', js_or (message result)
                               (JStr (if success result then ''Agent logged in successfully''
                                     else ''Failed to login agent''))),
                            (''data'', data result),
                            (''error'', error result)])),
                         reqs))))"

definition handleLogoutAgent :: handler where
  "handleLogoutAgent t args =
     (case args of
        None \<Rightarrow> (Inl (TypeError (cannot_destructure ''domain'')), [])
      | Some m \<Rightarrow>
          (let domain = get_prop m ''domain'';
               queueId = get_prop m ''queueId'';
               agentId = get_prop m ''agentId''
           in if \<not> truthy domain \<or> \<not> truthy queueId \<or> \<not> truthy agentId
              then (Inl (McpError InvalidParams
                           ''domain, queueId, and agentId parameters are required''), [])
              else (case logoutAgent t domain queueId agentId of
                      (result, reqs) \<Rightarrow>
                        (Inr (text_reply (JSON_stringify
                           [(''success'', JBool (success result)),
                            (''message'', js_or (message result)
                               (JStr (if success result then ''Agent logged out successfully''
                                     else ''Failed to logout agent''))),
                            (''data'', data result),
                            (''error'', error result)])),
                         reqs))))"

definition handleGetAutoAttendants :: handler where
  "handleGetAutoAttendants t args =
     (case args of
        None \<Rightarrow> (Inl (TypeError (cannot_destructure ''domain'')), [])
      | Some m \<Rightarrow>
          (let domain = get_prop m ''domain''
           in if \<not> truthy domain
              then (Inl (McpError InvalidParams ''domain parameter is required''), [])
              else (case getAutoAttendants t domain of
                      (result, reqs) \<Rightarrow>
                        (case (if success result
                               then template [Lit ''Retrieved '',
                                              Val (js_or (opt_length (data result)) (JNum ''0'')),
                                              Lit '' auto attendants for domain '', Val domain]
                               else template [Lit ''Failed to get auto attendants: '',
                                              Val (error result)]) of
                           None \<Rightarrow> (Inl (TypeError cannot_convert), reqs)
                         | Some msg \<Rightarrow>
                             (Inr (text_reply (JSON_stringify
                                [(''success'', JBool (success result)),
                                 (''message'', JStr msg),
                                 (''data'', data result),
                                 (''error'', error result)])),
                              reqs)))))"

definition handleGetUserAnswerRules :: handler where
  "handleGetUserAnswerRules t args =
     (case args of
        None \<Rightarrow> (Inl (TypeError (cannot_destructure ''userId'')), [])
      | Some m \<Rightarrow>
          (let userId = get_prop m ''userId'';
               domain = get_prop m ''domain''
           in if \<not> truthy userId \<or> \<not> truthy domain
              then (Inl (McpError InvalidParams
                           ''userId and domain parameters are required''), [])
              else (case getUserAnswerRules t userId domain of
                      (result, reqs) \<Rightarrow>
                        (case (if success result
                               then template [Lit ''Retrieved '',
                                              Val (js_or (opt_length (data result)) (JNum ''0'')),
                                              Lit '' answer rules for user '', Val userId,
                                              Lit ''@'', Val domain]
                               else template [Lit ''Failed to get answer rules: '',
                                              Val (error result)]) of
                           None \<Rightarrow> (Inl (TypeError cannot_convert), reqs)
                         | Some msg \<Rightarrow>
                             (Inr (text_reply (JSON_stringify
                                [(''success'', JBool (success result)),
                                 (''message'', JStr msg),
                                 (''data'', data result),
                                 (''error'', error result)])),
                              reqs)))))"

definition handleGetUserAnswerRule :: handler where
  "handleGetUserAnswerRule t args =
     (case args of
        None \<Rightarrow> (Inl (TypeError (cannot_destructure ''userId'')), [])
      | Some m \<Rightarrow>
          (let userId = get_prop m ''userId'';
               domain = get_prop m ''domain'';
               timeframe = get_prop m ''timeframe''
           in if \<not> truthy userId \<or> \<not> truthy domain \<or> \<not> truthy timeframe
              then (Inl (McpError InvalidParams
                           ''userId, domain, and timeframe parameters are required''), [])
              else (case getUserAnswerRule t userId domain timeframe of
                      (result, reqs) \<Rightarrow>
                        (case (if success result
                               then template [Lit ''Retrieved answer rule for '', Val userId,
                                              Lit ''@'', Val domain, Lit '' timeframe '',
                                              Val timeframe]
                               else template [Lit ''Failed to get answer rule: '',
                                              Val (error result)]) of
                           None \<Rightarrow> (Inl (TypeError cannot_convert), reqs)
                         | Some msg \<Rightarrow>
                             (Inr (text_reply (JSON_stringify
                                [(''success'', JBool (success result)),
                                 (''message'', JStr msg),
                                 (''data'', data result),
                                 (''error'', error result)])),
                              reqs)))))"

definition handleGetUserGreetings :: handler where
  "handleGetUserGreetings t args =
     (case args of
        None \<Rightarrow> (Inl (TypeError (cannot_destructure ''userId'')), [])
      | Some m \<Rightarrow>
          (let userId = get_prop m ''userId'';
               domain = get_prop m ''domain''
           in if \<not> truthy userId \<or> \<not> truthy domain
              then (Inl (McpError InvalidParams
                           ''userId and domain parameters are required''), [])
              else (case getUserGreetings t userId domain of
                      (result, reqs) \<Rightarrow>
                        (case (if success result
                               then template [Lit ''Retrieved '',
                                              Val (js_or (opt_length (data result)) (JNum ''0'')),
                                              Lit '' greetings for user '', Val userId,
                                              Lit ''@'', Val domain]
                               else template [Lit ''Failed to get user greetings: '',
                                              Val (error result)]) of
                           None \<Rightarrow> (Inl (TypeError cannot_convert), reqs)
                         | Some msg \<Rightarrow>
                             (Inr (text_reply (JSON_stringify
                                [(''success'', JBool (success result)),
                                 (''message'', JStr msg),
                                 (''data'', data result),
                                 (''error'', error result)])),
                              reqs)))))"

definition handleGetUserVoicemails :: handler where
  "handleGetUserVoicemails t args =
     (case args of
        None \<Rightarrow> (Inl (TypeError (cannot_destructure ''userId'')), [])
      | Some m \<Rightarrow>
          (let userId = get_prop m ''userId'';
               domain = get_prop m ''domain''
           in if \<not> truthy userId \<or> \<not> truthy domain
              then (Inl (McpError InvalidParams
                           ''userId and domain parameters are required''), [])
              else (case getUserVoicemails t userId domain of
                      (result, reqs) \<Rightarrow>
                        (case (if success result
                               then template [Lit ''Retrieved '',
                                              Val (js_or (opt_length (data result)) (JNum ''0'')),
                                              Lit '' voicemails for user '', Val userId,
                                              Lit ''@'', Val domain]
                               else template [Lit ''Failed to get user voicemails: '',
                                              Val (error result)]) of
                           None \<Rightarrow> (Inl (TypeError cannot_convert), reqs)
                         | Some msg \<Rightarrow>
                             (Inr (text_reply (JSON_stringify
                                [(''success'', JBool (success result)),
                                 (''message'', JStr msg),
                                 (''data'', data result),
                                 (''error'', error result)])),
                              reqs)))))"

definition handleGetMusicOnHold :: handler where
  "handleGetMusicOnHold t args =
     (case args of
        None \<Rightarrow> (Inl (TypeError (cannot_destructure ''domain'')), [])
      | Some m \<Rightarrow>
          (let domain = get_prop m ''domain''
           in if \<not> truthy domain
              then (Inl (McpError InvalidParams ''domain parameter is required''), [])
              else (case getMusicOnHold t domain of
                      (result, reqs) \<Rightarrow>
                        (case (if success result
                               then template [Lit ''Retrieved '',
                                              Val (js_or (opt_length (data result)) (JNum ''0'')),
                                              Lit '' music on hold files for domain '',
                                              Val domain]
                               else template [Lit ''Failed to get music on hold: '',
                                              Val (error result)]) of
                           None \<Rightarrow> (Inl (TypeError cannot_convert), reqs)
                         | Some msg \<Rightarrow>
                             (Inr (text_reply (JSON_stringify
                                [(''success'', JBool (success result)),
                                 (''message'', JStr msg),
                                 (''data'', data result),
                                 (''error'', error result)])),
                              reqs)))))"

definition handleGetBilling :: handler where
  "handleGetBilling t args =
     (case args of
        None \<Rightarrow> (Inl (TypeError (cannot_destructure ''domain'')), [])
      | Some m \<Rightarrow>
          (let domain = get_prop m ''domain''
           in if \<not> truthy domain
              then (Inl (McpError InvalidParams ''domain parameter is required''), [])
              else (case getBilling t domain of
                      (result, reqs) \<Rightarrow>
                        (case (if success result
                               then template [Lit ''Retrieved billing information for domain '',
                                              Val domain]
                               else template [Lit ''Failed to get billing information: '',
                                              Val (error result)]) of
                           None \<Rightarrow> (Inl (TypeError cannot_convert), reqs)
                         | Some msg \<Rightarrow>
                             (Inr (text_reply (JSON_stringify
                                [(''success'', JBool (success result)),
                                 (''message'', JStr msg),
                                 (''data'', data result),
                                 (''error'', error result)])),
                              reqs)))))"

definition handleGetAgentStatistics :: handler where
  "handleGetAgentStatistics t args =
     (case args of
        None \<Rightarrow> (Inl (TypeError (cannot_destructure ''domain'')), [])
      | Some m \<Rightarrow>
          (let domain = get_prop m ''domain'';
               agentId = get_prop m ''agentId''
           in if \<not> truthy domain
              then (Inl (McpError InvalidParams ''domain parameter is required''), [])
              else (case getAgentStatistics t domain agentId of
                      (result, reqs) \<Rightarrow>
                        (case (if success result
                               then template ([Lit ''Retrieved agent statistics for domain '',
                                               Val domain]
                                              @ (if truthy agentId then [Lit '' (agent: '', Val agentId, Lit '')''] else []))
                               else template [Lit ''Failed to get agent statistics: '',
                                              Val (error result)]) of
                           None \<Rightarrow> (Inl (TypeError cannot_convert), reqs)
                         | Some msg \<Rightarrow>
                             (Inr (text_reply (JSON_stringify
                                [(''success'', JBool (success result)),
                                 (''message'', JStr msg),
                                 (''data'', data result),
                                 (''error'', error result)])),
                              reqs)))))"

definition handleTestConnection :: handler where
  "handleTestConnection t args =
     (case testConnection t of
        (result, reqs) \<Rightarrow>
          (Inr (text_reply (JSON_stringify
             [(''success'', JBool (success result)),
              (''message'', js_or (message result)
                 (JStr (if success result then ''Connection successful''
                       else ''Connection failed''))),
              (''error'', error result)])),
           reqs))"

section \<open>Dispatch\<close>

text \<open>
  The \<open>catch\<close> clause around the dispatch: an \<open>McpError\<close> is thrown on as it is, anything else
  becomes an internal error.
\<close>

fun catch_internal ::
  "string \<Rightarrow> (exn + tool_reply) \<times> request list \<Rightarrow> (exn + tool_reply) \<times> request list" where
  "catch_internal nm (Inl (TypeError e), reqs) =
     (Inl (McpError InternalError (''Error executing tool '' @ nm @ '': TypeError: '' @ e)), reqs)"
| "catch_internal nm (Inl (McpError c e), reqs) = (Inl (McpError c e), reqs)"
| "catch_internal nm (Inr reply, reqs) = (Inr reply, reqs)"

definition callTool ::
  "transport \<Rightarrow> string \<Rightarrow> arguments \<Rightarrow> (exn + tool_reply) \<times> request list" where
  "callTool t nm args =
     catch_internal nm
       (if nm = ''search_users'' then handleSearchUsers t args
        else if nm = ''get_user'' then handleGetUser t args
        else if nm = ''get_cdr_records'' then handleGetCDRRecords t args
        else if nm = ''get_domains'' then handleGetDomains t args
        else if nm = ''get_domain'' then handleGetDomain t args
        else if nm = ''get_user_devices'' then handleGetUserDevices t args
        else if nm = ''get_phone_numbers'' then handleGetPhoneNumbers t args
        else if nm = ''get_phone_number'' then handleGetPhoneNumber t args
        else if nm = ''get_call_queues'' then handleGetCallQueues t args
        else if nm = ''get_call_queue'' then handleGetCallQueue t args
        else if nm = ''get_call_queue_agents'' then handleGetCallQueueAgents t args
        else if nm = ''get_agents'' then handleGetAgents t args
        else if nm = ''login_agent'' then handleLoginAgent t args
        else if nm = ''logout_agent'' then handleLogoutAgent t args
        else if nm = ''get_auto_attendants'' then handleGetAutoAttendants t args
        else if nm = ''get_user_answer_rules'' then handleGetUserAnswerRules t args
        else if nm = ''get_user_answer_rule'' then handleGetUserAnswerRule t args
        else if nm = ''get_user_greetings'' then handleGetUserGreetings t args
        else if nm = ''get_user_voicemails'' then handleGetUserVoicemails t args
        else if nm = ''get_music_on_hold'' then handleGetMusicOnHold t args
        else if nm = ''get_billing'' then handleGetBilling t args
        else if nm = ''get_agent_statistics'' then handleGetAgentStatistics t args
        else if nm = ''test_connection'' then handleTestConnection t args
        else (Inl (McpError MethodNotFound (''Unknown tool: '' @ nm)), []))"

section \<open>The tool catalog\<close>

record property_schema =
  "prop_type" :: string
  "prop_description" :: string
  "prop_default" :: "jsval option"

record input_schema =
  "schema_type" :: string
  "properties" :: "(string \<times> property_schema) list"
  "required" :: "string list option"

record tool_descriptor =
  "name" :: string
  "description" :: string
  "inputSchema" :: input_schema

text \<open>The reply of the handler of the "list tools" request. A schema without a
  \<open>required\<close> key has \<open>required = None\<close>.\<close>

definition listTools :: "tool_descriptor list" where
  "listTools =
     [\<lparr>name = ''search_users'',
        description = ''Search for users in the NetSapiens system'',
        inputSchema = \<lparr>schema_type = ''object'',
          properties =
           [(''query'',
             \<lparr>prop_type = ''string'',
              prop_description = ''Search query (username or partial username)'',
              prop_default = None\<rparr>),
            (''domain'',
             \<lparr>prop_type = ''string'',
              prop_description = ''Optional specific domain to search in'',
              prop_default = None\<rparr>),
            (''limit'',
             \<lparr>prop_type = ''number'',
              prop_description = ''Maximum number of results to return (default: 20)'',
              prop_default = Some (JNum ''20'')\<rparr>)],
          required = Some [''query'']\<rparr>\<rparr>,
      \<lparr>name = ''get_user'',
        description = ''Get detailed information about a specific user'',
        inputSchema = \<lparr>schema_type = ''object'',
          properties =
           [(''userId'',
             \<lparr>prop_type = ''string'',
              prop_description = ''User ID (username part)'',
              prop_default = None\<rparr>),
            (''domain'',
             \<lparr>prop_type = ''string'',
              prop_description = ''Domain name'',
              prop_default = None\<rparr>)],
          required = Some [''userId'', ''domain'']\<rparr>\<rparr>,
      \<lparr>name = ''get_cdr_records'',
        description = ''Retrieve call detail records (CDR)'',
        inputSchema = \<lparr>schema_type = ''object'',
          properties =
           [(''startDate'',
             \<lparr>prop_type = ''string'',
              prop_description = ''Start date for CDR search (YYYY-MM-DD format)'',
              prop_default = None\<rparr>),
            (''endDate'',
             \<lparr>prop_type = ''string'',
              prop_description = ''End date for CDR search (YYYY-MM-DD format)'',
              prop_default = None\<rparr>),
            (''user'',
             \<lparr>prop_type = ''string'',
              prop_description = ''Specific user to get CDR records for'',
              prop_default = None\<rparr>),
            (''domain'',
             \<lparr>prop_type = ''string'',
              prop_description = ''Domain to search in (required if user is specified)'',
              prop_default = None\<rparr>),
            (''limit'',
             \<lparr>prop_type = ''number'',
              prop_description = ''Maximum number of records to return (default: 100)'',
              prop_default = Some (JNum ''100'')\<rparr>)],
          required = None\<rparr>\<rparr>,
      \<lparr>name = ''get_domains'',
        description = ''Get list of domains in the NetSapiens system'',
        inputSchema = \<lparr>schema_type = ''object'',
          properties =
           [],
          required = None\<rparr>\<rparr>,
      \<lparr>name = ''get_domain'',
        description = ''Get detailed information about a specific domain'',
        inputSchema = \<lparr>schema_type = ''object'',
          properties =
           [(''domain'',
             \<lparr>prop_type = ''string'',
              prop_description = ''Domain name to retrieve information for'',
              prop_default = None\<rparr>)],
          required = Some [''domain'']\<rparr>\<rparr>,
      \<lparr>name = ''get_user_devices'',
        description = ''Get devices assigned to a specific user'',
        inputSchema = \<lparr>schema_type = ''object'',
          properties =
           [(''userId'',
             \<lparr>prop_type = ''string'',
              prop_description = ''User ID'',
              prop_default = None\<rparr>),
            (''domain'',
             \<lparr>prop_type = ''string'',
              prop_description = ''Domain name'',
              prop_default = None\<rparr>)],
          required = Some [''userId'', ''domain'']\<rparr>\<rparr>,
      \<lparr>name = ''get_phone_numbers'',
        description = ''Get phone numbers for a domain'',
        inputSchema = \<lparr>schema_type = ''object'',
          properties =
           [(''domain'',
             \<lparr>prop_type = ''string'',
              prop_description = ''Domain name'',
              prop_default = None\<rparr>),
            (''limit'',
             \<lparr>prop_type = ''number'',
              prop_description = ''Maximum number of results (optional)'',
              prop_default = None\<rparr>)],
          required = Some [''domain'']\<rparr>\<rparr>,
      \<lparr>name = ''get_phone_number'',
        description = ''Get details of a specific phone number'',
        inputSchema = \<lparr>schema_type = ''object'',
          properties =
           [(''domain'',
             \<lparr>prop_type = ''string'',
              prop_description = ''Domain name'',
              prop_default = None\<rparr>),
            (''phoneNumber'',
             \<lparr>prop_type = ''string'',
              prop_description = ''Phone number to lookup'',
              prop_default = None\<rparr>)],
          required = Some [''domain'', ''phoneNumber'']\<rparr>\<rparr>,
      \<lparr>name = ''get_call_queues'',
        description = ''Get call queues for a domain'',
        inputSchema = \<lparr>schema_type = ''object'',
          properties =
           [(''domain'',
             \<lparr>prop_type = ''string'',
              prop_description = ''Domain name'',
              prop_default = None\<rparr>)],
          required = Some [''domain'']\<rparr>\<rparr>,
      \<lparr>name = ''get_call_queue'',
        description = ''Get details of a specific call queue'',
        inputSchema = \<lparr>schema_type = ''object'',
          properties =
           [(''domain'',
             \<lparr>prop_type = ''string'',
              prop_description = ''Domain name'',
              prop_default = None\<rparr>),
            (''queueId'',
             \<lparr>prop_type = ''string'',
              prop_description = ''Call queue ID'',
              prop_default = None\<rparr>)],
          required = Some [''domain'', ''queueId'']\<rparr>\<rparr>,
      \<lparr>name = ''get_call_queue_agents'',
        description = ''Get agents assigned to a call queue'',
        inputSchema = \<lparr>schema_type = ''object'',
          properties =
           [(''domain'',
             \<lparr>prop_type = ''string'',
              prop_description = ''Domain name'',
              prop_default = None\<rparr>),
            (''queueId'',
             \<lparr>prop_type = ''string'',
              prop_description = ''Call queue ID'',
              prop_default = None\<rparr>)],
          required = Some [''domain'', ''queueId'']\<rparr>\<rparr>,
      \<lparr>name = ''get_agents'',
        description = ''Get agents for a domain'',
        inputSchema = \<lparr>schema_type = ''object'',
          properties =
           [(''domain'',
             \<lparr>prop_type = ''string'',
              prop_description = ''Domain name'',
              prop_default = None\<rparr>)],
          required = Some [''domain'']\<rparr>\<rparr>,
      \<lparr>name = ''login_agent'',
        description = ''Login an agent to a call queue'',
        inputSchema = \<lparr>schema_type = ''object'',
          properties =
           [(''domain'',
             \<lparr>prop_type = ''string'',
              prop_description = ''Domain name'',
              prop_default = None\<rparr>),
            (''queueId'',
             \<lparr>prop_type = ''string'',
              prop_description = ''Call queue ID'',
              prop_default = None\<rparr>),
            (''agentId'',
             \<lparr>prop_type = ''string'',
              prop_description = ''Agent ID'',
              prop_default = None\<rparr>)],
          required = Some [''domain'', ''queueId'', ''agentId'']\<rparr>\<rparr>,
      \<lparr>name = ''logout_agent'',
        description = ''Logout an agent from a call queue'',
        inputSchema = \<lparr>schema_type = ''object'',
          properties =
           [(''domain'',
             \<lparr>prop_type = ''string'',
              prop_description = ''Domain name'',
              prop_default = None\<rparr>),
            (''queueId'',
             \<lparr>prop_type = ''string'',
              prop_description = ''Call queue ID'',
              prop_default = None\<rparr>),
            (''agentId'',
             \<lparr>prop_type = ''string'',
              prop_description = ''Agent ID'',
              prop_default = None\<rparr>)],
          required = Some [''domain'', ''queueId'', ''agentId'']\<rparr>\<rparr>,
      \<lparr>name = ''get_auto_attendants'',
        description = ''Get auto attendants for a domain'',
        inputSchema = \<lparr>schema_type = ''object'',
          properties =
           [(''domain'',
             \<lparr>prop_type = ''string'',
              prop_description = ''Domain name'',
              prop_default = None\<rparr>)],
          required = Some [''domain'']\<rparr>\<rparr>,
      \<lparr>name = ''get_user_answer_rules'',
        description = ''Get answer rules for a user'',
        inputSchema = \<lparr>schema_type = ''object'',
          properties =
           [(''userId'',
             \<lparr>prop_type = ''string'',
              prop_description = ''User ID'',
              prop_default = None\<rparr>),
            (''domain'',
             \<lparr>prop_type = ''string'',
              prop_description = ''Domain name'',
              prop_default = None\<rparr>)],
          required = Some [''userId'', ''domain'']\<rparr>\<rparr>,
      \<lparr>name = ''get_user_answer_rule'',
        description = ''Get specific answer rule for a user'',
        inputSchema = \<lparr>schema_type = ''object'',
          properties =
           [(''userId'',
             \<lparr>prop_type = ''string'',
              prop_description = ''User ID'',
              prop_default = None\<rparr>),
            (''domain'',
             \<lparr>prop_type = ''string'',
              prop_description = ''Domain name'',
              prop_default = None\<rparr>),
            (''timeframe'',
             \<lparr>prop_type = ''string'',
              prop_description = ''Timeframe for the answer rule'',
              prop_default = None\<rparr>)],
          required = Some [''userId'', ''domain'', ''timeframe'']\<rparr>\<rparr>,
      \<lparr>name = ''get_user_greetings'',
        description = ''Get greetings for a user'',
        inputSchema = \<lparr>schema_type = ''object'',
          properties =
           [(''userId'',
             \<lparr>prop_type = ''string'',
              prop_description = ''User ID'',
              prop_default = None\<rparr>),
            (''domain'',
             \<lparr>prop_type = ''string'',
              prop_description = ''Domain name'',
              prop_default = None\<rparr>)],
          required = Some [''userId'', ''domain'']\<rparr>\<rparr>,
      \<lparr>name = ''get_user_voicemails'',
        description = ''Get voicemails for a user'',
        inputSchema = \<lparr>schema_type = ''object'',
          properties =
           [(''userId'',
             \<lparr>prop_type = ''string'',
              prop_description = ''User ID'',
              prop_default = None\<rparr>),
            (''domain'',
             \<lparr>prop_type = ''string'',
              prop_description = ''Domain name'',
              prop_default = None\<rparr>)],
          required = Some [''userId'', ''domain'']\<rparr>\<rparr>,
      \<lparr>name = ''get_music_on_hold'',
        description = ''Get music on hold files for a domain'',
        inputSchema = \<lparr>schema_type = ''object'',
          properties =
           [(''domain'',
             \<lparr>prop_type = ''string'',
              prop_description = ''Domain name'',
              prop_default = None\<rparr>)],
          required = Some [''domain'']\<rparr>\<rparr>,
      \<lparr>name = ''get_billing'',
        description = ''Get billing information for a domain'',
        inputSchema = \<lparr>schema_type = ''object'',
          properties =
           [(''domain'',
             \<lparr>prop_type = ''string'',
              prop_description = ''Domain name'',
              prop_default = None\<rparr>)],
          required = Some [''domain'']\<rparr>\<rparr>,
      \<lparr>name = ''get_agent_statistics'',
        description = ''Get agent statistics for a domain'',
        inputSchema = \<lparr>schema_type = ''object'',
          properties =
           [(''domain'',
             \<lparr>prop_type = ''string'',
              prop_description = ''Domain name'',
              prop_default = None\<rparr>),
            (''agentId'',
             \<lparr>prop_type = ''string'',
              prop_description = ''Optional specific agent ID'',
              prop_default = None\<rparr>)],
          required = Some [''domain'']\<rparr>\<rparr>,
      \<lparr>name = ''test_connection'',
        description = ''Test connectivity to NetSapiens API'',
        inputSchema = \<lparr>schema_type = ''object'',
          properties =
           [],
          required = None\<rparr>\<rparr>]"

section \<open>Validated invocations\<close>

text \<open>The method a tool's handler calls, with the arguments it passes, when the required
  arguments are there.\<close>

definition gateway_call_of ::
  "string \<Rightarrow> (string \<times> jsval) list \<Rightarrow> gateway_call option" where
  "gateway_call_of nm m =
     (if nm = ''search_users'' then
        Some (SearchUsers (get_prop m ''query'')
                          (get_prop m ''domain'')
                          (dflt (get_prop m ''limit'') (JNum ''20'')))
      else if nm = ''get_user'' then
        Some (GetUser (get_prop m ''userId'') (get_prop m ''domain''))
      else if nm = ''get_cdr_records'' then
        Some (GetCDRRecords
                [(''startDate'', get_prop m ''startDate''), (''endDate'', get_prop m ''endDate''),
                 (''user'', get_prop m ''user''), (''domain'', get_prop m ''domain''),
                 (''limit'', dflt (get_prop m ''limit'') (JNum ''100''))])
      else if nm = ''get_domains'' then
        Some GetDomains
      else if nm = ''get_domain'' then
        Some (GetDomain (get_prop m ''domain''))
      else if nm = ''get_user_devices'' then
        Some (GetUserDevices (get_prop m ''userId'') (get_prop m ''domain''))
      else if nm = ''get_phone_numbers'' then
        Some (GetPhoneNumbers (get_prop m ''domain'') (get_prop m ''limit''))
      else if nm = ''get_phone_number'' then
        Some (GetPhoneNumber (get_prop m ''domain'') (get_prop m ''phoneNumber''))
      else if nm = ''get_call_queues'' then
        Some (GetCallQueues (get_prop m ''domain''))
      else if nm = ''get_call_queue'' then
        Some (GetCallQueue (get_prop m ''domain'') (get_prop m ''queueId''))
      else if nm = ''get_call_queue_agents'' then
        Some (GetCallQueueAgents (get_prop m ''domain'') (get_prop m ''queueId''))
      else if nm = ''get_agents'' then
        Some (GetAgents (get_prop m ''domain''))
      else if nm = ''login_agent'' then
        Some (LoginAgent (get_prop m ''domain'')
                         (get_prop m ''queueId'')
                         (get_prop m ''agentId''))
      else if nm = ''logout_agent'' then
        Some (LogoutAgent (get_prop m ''domain'')
                          (get_prop m ''queueId'')
                          (get_prop m ''agentId''))
      else if nm = ''get_auto_attendants'' then
        Some (GetAutoAttendants (get_prop m ''domain''))
      else if nm = ''get_user_answer_rules'' then
        Some (GetUserAnswerRules (get_prop m ''userId'') (get_prop m ''domain''))
      else if nm = ''get_user_answer_rule'' then
        Some (GetUserAnswerRule (get_prop m ''userId'')
                                (get_prop m ''domain'')
                                (get_prop m ''timeframe''))
      else if nm = ''get_user_greetings'' then
        Some (GetUserGreetings (get_prop m ''userId'') (get_prop m ''domain''))
      else if nm = ''get_user_voicemails'' then
        Some (GetUserVoicemails (get_prop m ''userId'') (get_prop m ''domain''))
      else if nm = ''get_music_on_hold'' then
        Some (GetMusicOnHold (get_prop m ''domain''))
      else if nm = ''get_billing'' then
        Some (GetBilling (get_prop m ''domain''))
      else if nm = ''get_agent_statistics'' then
        Some (GetAgentStatistics (get_prop m ''domain'') (get_prop m ''agentId''))
      else if nm = ''test_connection'' then
        Some TestConnection
      else None)"

definition required_fields :: "tool_descriptor \<Rightarrow> string list" where
  "required_fields d = (case required (inputSchema d) of None \<Rightarrow> [] | Some fs \<Rightarrow> fs)"

text \<open>An invocation is validated when its name is in the catalog and every argument the
  tool's descriptor requires is there and truthy.\<close>

definition validated :: "string \<Rightarrow> (string \<times> jsval) list \<Rightarrow> bool" where
  "validated nm m =
     (\<exists>d \<in> set listTools. name d = nm \<and> (\<forall>f \<in> set (required_fields d). truthy (get_prop m f)))"

text \<open>The argument values all print: true of every argument object that holds strings,
  numbers, Booleans and \<open>null\<close> only, which is what the schemas of the catalog describe.\<close>

definition printable_arguments :: "(string \<times> jsval) list \<Rightarrow> bool" where
  "printable_arguments m = (\<forall>v \<in> set (map snd m). printable v)"

text \<open>An error message mentions a field when the field's name occurs in it, the case of
  letters aside (the message of \<open>search_users\<close> starts with "Query").\<close>

definition lower_char :: "char \<Rightarrow> char" where
  "lower_char c =
     (if (65::nat) \<le> of_char c \<and> of_char c \<le> (90::nat) then char_of (of_char c + (32::nat)) else c)"

fun occurs_in :: "string \<Rightarrow> string \<Rightarrow> bool" where
  "occurs_in p [] = (p = [])"
| "occurs_in p (c # cs) = (take (length p) (c # cs) = p \<or> occurs_in p cs)"

definition mentions :: "string \<Rightarrow> string \<Rightarrow> bool" where
  "mentions msg f = occurs_in (map lower_char f) (map lower_char msg)"

text \<open>The operation table of the specification: each operation with the inputs it
  requires, in the table's order.\<close>

definition spec_operation_table :: "(string \<times> string list) list" where
  "spec_operation_table =
     [(''search_users'', [''query'']),
      (''get_user'', [''userId'', ''domain'']),
      (''get_cdr_records'', []),
      (''get_domains'', []),
      (''get_domain'', [''domain'']),
      (''get_user_devices'', [''userId'', ''domain'']),
      (''get_phone_numbers'', [''domain'']),
      (''get_phone_number'', [''domain'', ''phoneNumber'']),
      (''get_call_queues'', [''domain'']),
      (''get_call_queue'', [''domain'', ''queueId'']),
      (''get_call_queue_agents'', [''domain'', ''queueId'']),
      (''get_agents'', [''domain'']),
      (''login_agent'', [''domain'', ''queueId'', ''agentId'']),
      (''logout_agent'', [''domain'', ''queueId'', ''agentId'']),
      (''get_auto_attendants'', [''domain'']),
      (''get_user_answer_rules'', [''userId'', ''domain'']),
      (''get_user_answer_rule'', [''userId'', ''domain'', ''timeframe'']),
      (''get_user_greetings'', [''userId'', ''domain'']),
      (''get_user_voicemails'', [''userId'', ''domain'']),
      (''get_music_on_hold'', [''domain'']),
      (''get_billing'', [''domain'']),
      (''get_agent_statistics'', [''domain'']),
      (''test_connection'', [])]"


section \<open>Mock transports\<close>

text \<open>A remote side that answers every request with the same body, and one that rejects
  every request with the same message.\<close>

definition mock_response :: "jsval \<Rightarrow> transport" where
  "mock_response body r = Response body"

definition mock_failure :: "string option \<Rightarrow> transport" where
  "mock_failure msg r = Rejected msg"

section \<open>Auxiliary facts\<close>

lemmas gateway_defs =
  searchUsers_def getUser_def getCDRRecords_def getDomains_def getDomain_def
  getUserDevices_def getPhoneNumbers_def getPhoneNumber_def getCallQueues_def
  getCallQueue_def getCallQueueAgents_def getAgents_def loginAgent_def logoutAgent_def
  getAutoAttendants_def getUserAnswerRules_def getUserAnswerRule_def getUserGreetings_def
  getUserVoicemails_def getMusicOnHold_def getBilling_def getAgentStatistics_def
  testConnection_def

lemmas handler_defs =
  handleSearchUsers_def handleGetUser_def handleGetCDRRecords_def handleGetDomains_def
  handleGetDomain_def handleGetUserDevices_def handleGetPhoneNumbers_def
  handleGetPhoneNumber_def handleGetCallQueues_def handleGetCallQueue_def
  handleGetCallQueueAgents_def handleGetAgents_def handleLoginAgent_def
  handleLogoutAgent_def handleGetAutoAttendants_def handleGetUserAnswerRules_def
  handleGetUserAnswerRule_def handleGetUserGreetings_def handleGetUserVoicemails_def
  handleGetMusicOnHold_def handleGetBilling_def handleGetAgentStatistics_def
  handleTestConnection_def

lemma catalog_table:
  "map (\<lambda>d. (name d, required_fields d)) listTools = spec_operation_table"
  by (simp add: listTools_def required_fields_def spec_operation_table_def)

lemma validated_alt:
  "validated nm m \<longleftrightarrow>
     (\<exists>(n, fs) \<in> set (map (\<lambda>d. (name d, required_fields d)) listTools).
         nm = n \<and> (\<forall>f \<in> set fs. truthy (get_prop m f)))"
  by (auto simp add: validated_def)

lemma validated_iff:
  "validated nm m \<longleftrightarrow>
     nm = ''search_users'' \<and> truthy (get_prop m ''query'')
     \<or> nm = ''get_user'' \<and> truthy (get_prop m ''userId'') \<and> truthy (get_prop m ''domain'')
     \<or> nm = ''get_cdr_records''
     \<or> nm = ''get_domains''
     \<or> nm = ''get_domain'' \<and> truthy (get_prop m ''domain'')
     \<or> nm = ''get_user_devices'' \<and> truthy (get_prop m ''userId'') \<and> truthy (get_prop m ''domain'')
     \<or> nm = ''get_phone_numbers'' \<and> truthy (get_prop m ''domain'')
     \<or> nm = ''get_phone_number'' \<and> truthy (get_prop m ''domain'') \<and> truthy (get_prop m ''phoneNumber'')
     \<or> nm = ''get_call_queues'' \<and> truthy (get_prop m ''domain'')
     \<or> nm = ''get_call_queue'' \<and> truthy (get_prop m ''domain'') \<and> truthy (get_prop m ''queueId'')
     \<or> nm = ''get_call_queue_agents'' \<and> truthy (get_prop m ''domain'') \<and> truthy (get_prop m ''queueId'')
     \<or> nm = ''get_agents'' \<and> truthy (get_prop m ''domain'')
     \<or> nm = ''login_agent'' \<and> truthy (get_prop m ''domain'') \<and> truthy (get_prop m ''queueId'') \<and> truthy (get_prop m ''agentId'')
     \<or> nm = ''logout_agent'' \<and> truthy (get_prop m ''domain'') \<and> truthy (get_prop m ''queueId'') \<and> truthy (get_prop m ''agentId'')
     \<or> nm = ''get_auto_attendants'' \<and> truthy (get_prop m ''domain'')
     \<or> nm = ''get_user_answer_rules'' \<and> truthy (get_prop m ''userId'') \<and> truthy (get_prop m ''domain'')
     \<or> nm = ''get_user_answer_rule'' \<and> truthy (get_prop m ''userId'') \<and> truthy (get_prop m ''domain'') \<and> truthy (get_prop m ''timeframe'')
     \<or> nm = ''get_user_greetings'' \<and> truthy (get_prop m ''userId'') \<and> truthy (get_prop m ''domain'')
     \<or> nm = ''get_user_voicemails'' \<and> truthy (get_prop m ''userId'') \<and> truthy (get_prop m ''domain'')
     \<or> nm = ''get_music_on_hold'' \<and> truthy (get_prop m ''domain'')
     \<or> nm = ''get_billing'' \<and> truthy (get_prop m ''domain'')
     \<or> nm = ''get_agent_statistics'' \<and> truthy (get_prop m ''domain'')
     \<or> nm = ''test_connection''"
  by (simp add: validated_alt catalog_table spec_operation_table_def)

lemma tool_names:
  "map name listTools =
     [''search_users'', ''get_user'', ''get_cdr_records'', ''get_domains'',
      ''get_domain'', ''get_user_devices'', ''get_phone_numbers'', ''get_phone_number'',
      ''get_call_queues'', ''get_call_queue'', ''get_call_queue_agents'', ''get_agents'',
      ''login_agent'', ''logout_agent'', ''get_auto_attendants'',
      ''get_user_answer_rules'', ''get_user_answer_rule'', ''get_user_greetings'',
      ''get_user_voicemails'', ''get_music_on_hold'', ''get_billing'',
      ''get_agent_statistics'', ''test_connection'']"
proof -
  have "map name listTools = map fst (map (\<lambda>d. (name d, required_fields d)) listTools)"
    by simp
  then show ?thesis
    by (simp only: catalog_table) (simp add: spec_operation_table_def)
qed

text \<open>The dispatch on the tool's name.\<close>

lemma callTool_dispatch:
  "callTool t ''search_users'' args = catch_internal ''search_users'' (handleSearchUsers t args)"
  "callTool t ''get_user'' args = catch_internal ''get_user'' (handleGetUser t args)"
  "callTool t ''get_cdr_records'' args = catch_internal ''get_cdr_records'' (handleGetCDRRecords t args)"
  "callTool t ''get_domains'' args = catch_internal ''get_domains'' (handleGetDomains t args)"
  "callTool t ''get_domain'' args = catch_internal ''get_domain'' (handleGetDomain t args)"
  "callTool t ''get_user_devices'' args = catch_internal ''get_user_devices'' (handleGetUserDevices t args)"
  "callTool t ''get_phone_numbers'' args = catch_internal ''get_phone_numbers'' (handleGetPhoneNumbers t args)"
  "callTool t ''get_phone_number'' args = catch_internal ''get_phone_number'' (handleGetPhoneNumber t args)"
  "callTool t ''get_call_queues'' args = catch_internal ''get_call_queues'' (handleGetCallQueues t args)"
  "callTool t ''get_call_queue'' args = catch_internal ''get_call_queue'' (handleGetCallQueue t args)"
  "callTool t ''get_call_queue_agents'' args = catch_internal ''get_call_queue_agents'' (handleGetCallQueueAgents t args)"
  "callTool t ''get_agents'' args = catch_internal ''get_agents'' (handleGetAgents t args)"
  "callTool t ''login_agent'' args = catch_internal ''login_agent'' (handleLoginAgent t args)"
  "callTool t ''logout_agent'' args = catch_internal ''logout_agent'' (handleLogoutAgent t args)"
  "callTool t ''get_auto_attendants'' args = catch_internal ''get_auto_attendants'' (handleGetAutoAttendants t args)"
  "callTool t ''get_user_answer_rules'' args = catch_internal ''get_user_answer_rules'' (handleGetUserAnswerRules t args)"
  "callTool t ''get_user_answer_rule'' args = catch_internal ''get_user_answer_rule'' (handleGetUserAnswerRule t args)"
  "callTool t ''get_user_greetings'' args = catch_internal ''get_user_greetings'' (handleGetUserGreetings t args)"
  "callTool t ''get_user_voicemails'' args = catch_internal ''get_user_voicemails'' (handleGetUserVoicemails t args)"
  "callTool t ''get_music_on_hold'' args = catch_internal ''get_music_on_hold'' (handleGetMusicOnHold t args)"
  "callTool t ''get_billing'' args = catch_internal ''get_billing'' (handleGetBilling t args)"
  "callTool t ''get_agent_statistics'' args = catch_internal ''get_agent_statistics'' (handleGetAgentStatistics t args)"
  "callTool t ''test_connection'' args = catch_internal ''test_connection'' (handleTestConnection t args)"
  by (simp_all add: callTool_def)

lemma mentions_facts:
  "mentions ''Query parameter is required'' ''query''
   \<and> mentions ''userId and domain parameters are required'' ''userId''
   \<and> mentions ''userId and domain parameters are required'' ''domain''
   \<and> mentions ''domain parameter is required'' ''domain''
   \<and> mentions ''domain and phoneNumber parameters are required'' ''domain''
   \<and> mentions ''domain and phoneNumber parameters are required'' ''phoneNumber''
   \<and> mentions ''domain and queueId parameters are required'' ''domain''
   \<and> mentions ''domain and queueId parameters are required'' ''queueId''
   \<and> mentions ''domain, queueId, and agentId parameters are required'' ''domain''
   \<and> mentions ''domain, queueId, and agentId parameters are required'' ''queueId''
   \<and> mentions ''domain, queueId, and agentId parameters are required'' ''agentId''
   \<and> mentions ''userId, domain, and timeframe parameters are required'' ''userId''
   \<and> mentions ''userId, domain, and timeframe parameters are required'' ''domain''
   \<and> mentions ''userId, domain, and timeframe parameters are required'' ''timeframe''"
  by code_simp

lemma js_or_defined: "b \<noteq> JUndefined \<Longrightarrow> js_or a b \<noteq> JUndefined"
  by (cases a) (auto simp add: js_or_def)

lemma get_prop_Nil: "get_prop [] k = JUndefined"
  by (simp add: get_prop_def)

lemma get_prop_Cons: "get_prop ((k, v) # kvs) k' = (if k = k' then v else get_prop kvs k')"
  by (simp add: get_prop_def)

lemma get_prop_absent: "map_of m k = None \<Longrightarrow> get_prop m k = JUndefined"
  by (simp add: get_prop_def)




lemma members_Cons:
  "members ((k, v) # kvs) = (if v = JUndefined then members kvs else (k, v) # members kvs)"
  by (simp add: members_def)


text \<open>What prints. A template throws exactly when one of its values does.\<close>

lemma printable_simps:
  "printable JUndefined" "printable JNull" "printable (JBool b)" "printable (JNum n)"
  "printable (JStr s)" "printable (the_message e)"
  by (simp_all add: printable_def the_message_def split: option.split)

lemma printable_js_or: "printable a \<Longrightarrow> printable b \<Longrightarrow> printable (js_or a b)"
  by (simp add: js_or_def)

lemma printable_count: "printable (js_or (opt_length (JArr xs)) (JNum ''0''))"
  by (simp add: opt_length_def printable_js_or printable_simps)

lemma printable_get_prop: "printable_arguments m \<Longrightarrow> printable (get_prop m k)"
proof (cases "map_of m k")
  case None
  then show ?thesis by (simp add: get_prop_def printable_simps)
next
  case (Some v)
  assume "printable_arguments m"
  moreover from Some have "v \<in> set (map snd m)"
    by (metis map_of_SomeD image_eqI set_map snd_conv)
  ultimately show ?thesis
    using Some by (auto simp add: get_prop_def printable_arguments_def)
qed

lemma printable_dflt: "printable v \<Longrightarrow> printable d \<Longrightarrow> printable (dflt v d)"
  by (simp add: dflt_def)

lemma template_None_iff:
  "template ps = None \<longleftrightarrow> (\<exists>v. Val v \<in> set ps \<and> \<not> printable v)"
proof (induction ps)
  case Nil
  show ?case by simp
next
  case (Cons p ps)
  then show ?case
    by (cases p) (auto simp add: printable_def split: option.split)
qed

lemma template_literal: "template [Lit s] = Some s"
  by simp

declare template.simps [simp del]

text \<open>Every method issues at most one request, none when its path cannot be printed, and
  builds its result from the outcome of that request alone.\<close>

lemma invoke_shape:
  "invoke t c =
      (\<lparr>success = False, data = empty_value (kind_of c),
        error = JStr cannot_convert, message = JUndefined\<rparr>, [])
   \<or> (\<exists>req. invoke t c =
     (case t req of
        Response d \<Rightarrow>
          \<lparr>success = True,
           data = (case kind_of c of ListResult \<Rightarrow> (if isArray d then d else JArr [d])
                   | SingleResult \<Rightarrow> d | BooleanResult \<Rightarrow> JBool True),
           error = JUndefined,
           message = (case c of LoginAgent x y z \<Rightarrow> JStr ''Agent logged in successfully''
                      | LogoutAgent x y z \<Rightarrow> JStr ''Agent logged out successfully''
                      | TestConnection \<Rightarrow> JStr ''Connection successful''
                      | _ \<Rightarrow> JUndefined)\<rparr>
      | Rejected e \<Rightarrow>
          \<lparr>success = False, data = empty_value (kind_of c),
           error = js_or (the_message e) (JStr (fallback_text c)), message = JUndefined\<rparr>,
      [req]))"
proof -
  have msg: "js_or (the_message (Some cannot_convert)) (JStr s) = JStr cannot_convert" for s
    by (simp add: js_or_def the_message_def cannot_convert_def)
  show ?thesis
    by (cases c;
        simp add: gateway_defs client_get_def client_post_def Let_def msg
          split: option.split outcome.split)
qed

lemma unprintable_argument:
  "\<not> printable (get_prop p k) \<Longrightarrow> \<exists>x \<in> set p. \<not> printable (snd x)"
  using printable_get_prop [of p k] by (auto simp add: printable_arguments_def)

lemma invoke_sent:
  assumes "\<forall>v \<in> set (call_arguments c). printable v"
  shows "snd (invoke t c) \<noteq> []"
  using assms
  by (cases c;
      simp add: gateway_defs client_get_def client_post_def Let_def template_None_iff
        template_literal split: option.split outcome.split;
      blast dest: unprintable_argument)

lemma invoke_cases:
  obtains (Unsent)
      "snd (invoke t c) = []"
      and "fst (invoke t c) =
             \<lparr>success = False, data = empty_value (kind_of c),
              error = JStr cannot_convert, message = JUndefined\<rparr>"
  | (Answered) req d where
      "snd (invoke t c) = [req]" and "t req = Response d"
      and "success (fst (invoke t c))" and "error (fst (invoke t c)) = JUndefined"
      and "data (fst (invoke t c)) =
             (case kind_of c of ListResult \<Rightarrow> (if isArray d then d else JArr [d])
              | SingleResult \<Rightarrow> d | BooleanResult \<Rightarrow> JBool True)"
  | (Failed) req e where
      "snd (invoke t c) = [req]" and "t req = Rejected e"
      and "fst (invoke t c) =
             \<lparr>success = False, data = empty_value (kind_of c),
              error = js_or (the_message e) (JStr (fallback_text c)), message = JUndefined\<rparr>"
proof -
  from invoke_shape [of t c] consider
    (a) "invoke t c =
      (\<lparr>success = False, data = empty_value (kind_of c),
        error = JStr cannot_convert, message = JUndefined\<rparr>, [])"
    | (b) req where "invoke t c =
     (case t req of
        Response d \<Rightarrow>
          \<lparr>success = True,
           data = (case kind_of c of ListResult \<Rightarrow> (if isArray d then d else JArr [d])
                   | SingleResult \<Rightarrow> d | BooleanResult \<Rightarrow> JBool True),
           error = JUndefined,
           message = (case c of LoginAgent x y z \<Rightarrow> JStr ''Agent logged in successfully''
                      | LogoutAgent x y z \<Rightarrow> JStr ''Agent logged out successfully''
                      | TestConnection \<Rightarrow> JStr ''Connection successful''
                      | _ \<Rightarrow> JUndefined)\<rparr>
      | Rejected e \<Rightarrow>
          \<lparr>success = False, data = empty_value (kind_of c),
           error = js_or (the_message e) (JStr (fallback_text c)), message = JUndefined\<rparr>,
      [req])"
    by blast
  then show thesis
  proof cases
    case a
    then show thesis by (intro Unsent) simp_all
  next
    case (b req)
    show thesis
    proof (cases "t req")
      case (Response d)
      with b show thesis by (intro Answered [of req d]) simp_all
    next
      case (Rejected e)
      with b show thesis by (intro Failed [of req e]) simp_all
    qed
  qed
qed

text \<open>What a handler prints of the method's result does print: the error, and the number of
  elements of a list.\<close>

lemma printable_error: "printable (error (fst (invoke t c)))"
  by (cases t c rule: invoke_cases) (simp_all add: printable_simps printable_js_or)

lemma isArray_count: "isArray d \<Longrightarrow> printable (js_or (opt_length d) (JNum ''0''))"
  by (cases d) (simp_all add: isArray_def printable_count)

lemma printable_list_count:
  assumes "kind_of c = ListResult"
  shows "printable (js_or (opt_length (data (fst (invoke t c)))) (JNum ''0''))"
  using assms
  by (cases t c rule: invoke_cases) (simp_all add: printable_count isArray_count)

text \<open>
  A validated invocation calls the method of its tool and issues the requests of that call.
  It ends in a reply built from the result of the call, or, when the call has succeeded and
  an argument that the sentence of success prints cannot be printed, in an internal error.
\<close>

lemma validated_call: "validated nm m \<Longrightarrow> \<exists>c. gateway_call_of nm m = Some c"
  unfolding validated_iff by (auto simp add: gateway_call_of_def)

lemma callTool_requests:
  assumes "validated nm m" and "gateway_call_of nm m = Some c"
  shows "snd (callTool t nm (Some m)) = snd (invoke t c)"
  using assms unfolding validated_iff
  by (elim disjE conjE; hypsubst; simp add: gateway_call_of_def;
      auto simp add: callTool_dispatch handler_defs Let_def case_prod_beta
        split: option.splits if_splits)

lemma callTool_shape:
  assumes "validated nm m" and "gateway_call_of nm m = Some c"
  shows "(fst (callTool t nm (Some m)) =
            Inl (McpError InternalError
                  (''Error executing tool '' @ nm @ '': TypeError: '' @ cannot_convert)) \<and>
          success (fst (invoke t c)) \<and> \<not> printable_arguments m)
         \<or> (\<exists>msg.
               fst (callTool t nm (Some m)) =
                 Inr (text_reply (JSON_stringify
                   (if nm = ''test_connection''
                    then [(''success'', JBool (success (fst (invoke t c)))),
                          (''message'', msg),
                          (''error'', error (fst (invoke t c)))]
                    else [(''success'', JBool (success (fst (invoke t c)))),
                          (''message'', msg),
                          (''data'', data (fst (invoke t c))),
                          (''error'', error (fst (invoke t c)))]))) \<and>
               msg \<noteq> JUndefined)"
  using assms unfolding validated_iff
  by (elim disjE conjE; hypsubst; simp add: gateway_call_of_def;
      auto simp add: callTool_dispatch handler_defs Let_def case_prod_beta
        invoke.simps [symmetric] template_None_iff printable_error printable_list_count
        printable_get_prop js_or_defined
        simp del: invoke.simps split: option.splits if_splits)

lemma call_arguments_print:
  assumes "gateway_call_of nm m = Some c" and "printable_arguments m"
  shows "\<forall>v \<in> set (call_arguments c). printable v"
  using assms
  by (auto simp add: gateway_call_of_def printable_get_prop printable_dflt printable_simps
        split: if_splits)

lemma callTool_sent:
  assumes "validated nm m" and "printable_arguments m"
  shows "\<exists>req. snd (callTool t nm (Some m)) = [req]"
proof -
  from validated_call [OF assms(1)] obtain c where c: "gateway_call_of nm m = Some c" ..
  have "snd (invoke t c) \<noteq> []"
    using call_arguments_print [OF c assms(2)] by (rule invoke_sent)
  then have "\<exists>req. snd (invoke t c) = [req]"
    by (cases t c rule: invoke_cases) simp_all
  then show ?thesis
    by (simp only: callTool_requests [OF assms(1) c])
qed


text \<open>An invocation that lacks a required argument is refused before any request.\<close>

lemma callTool_invalid:
  assumes "(nm, fs) \<in> set spec_operation_table"
    and "\<exists>g \<in> set fs. \<not> truthy (get_prop m g)"
  shows "\<exists>msg. callTool t nm (Some m) = (Inl (McpError InvalidParams msg), []) \<and>
           (\<forall>g \<in> set fs. mentions msg g)"
  using assms
  apply (simp add: spec_operation_table_def)
  apply (elim disjE conjE)
  apply (hypsubst, ((simp; fail) | (intro exI conjI,
         simp add: callTool_dispatch handler_defs Let_def, simp add: mentions_facts)))+
  done

text \<open>An invocation without an argument object ends in an internal error, before any
  request, for every tool whose handler reads its arguments: all but \<open>get_domains\<close> and
  \<open>test_connection\<close>.\<close>

lemma callTool_without_arguments:
  assumes "nm \<in> set (map name listTools)" and "nm \<noteq> ''get_domains''"
    and "nm \<noteq> ''test_connection''"
  shows "\<exists>msg. callTool t nm None = (Inl (McpError InternalError msg), [])"
  using assms(1) unfolding tool_names
  by (simp only: list.set insert_iff empty_iff)
     (elim disjE FalseE; insert assms(2,3); simp add: callTool_dispatch handler_defs)

text \<open>The defaults that the schemas of the catalog declare.\<close>

lemma schema_defaults:
  "concat (map (\<lambda>d. concat (map (\<lambda>(p, sch). case prop_default sch of None \<Rightarrow> []
                                             | Some v \<Rightarrow> [(name d, p, v)])
                                (properties (inputSchema d)))) listTools) =
     [(''search_users'', ''limit'', JNum ''20''), (''get_cdr_records'', ''limit'', JNum ''100'')]"
  by (simp add: listTools_def)

lemma in_concat_map: "x \<in> set xs \<Longrightarrow> y \<in> set (f x) \<Longrightarrow> y \<in> set (concat (map f xs))"
  by auto

lemma schema_default_cases:
  assumes "d \<in> set listTools" and "(p, sch) \<in> set (properties (inputSchema d))"
    and "prop_default sch = Some v"
  shows "(name d, p, v) = (''search_users'', ''limit'', JNum ''20'') \<or>
         (name d, p, v) = (''get_cdr_records'', ''limit'', JNum ''100'')"
proof -
  have "(name d, p, v) \<in> set (concat (map (\<lambda>(p, sch). case prop_default sch of None \<Rightarrow> []
                                             | Some v \<Rightarrow> [(name d, p, v)])
                                (properties (inputSchema d))))"
    by (rule in_concat_map [OF assms(2)]) (simp add: assms(3))
  then have "(name d, p, v) \<in> set (concat (map (\<lambda>d. concat (map (\<lambda>(p, sch).
                                           case prop_default sch of None \<Rightarrow> []
                                             | Some v \<Rightarrow> [(name d, p, v)])
                                (properties (inputSchema d)))) listTools))"
    by (rule in_concat_map [OF assms(1)])
  then show ?thesis
    by (simp only: schema_defaults) simp
qed

lemma search_users_limit:
  assumes "truthy (get_prop m ''query'')" and "get_prop m ''limit'' = JUndefined"
    and "printable (get_prop m ''domain'')"
  shows "\<exists>req. snd (callTool t ''search_users'' (Some m)) = [req] \<and>
               get_prop (params req) ''limit'' = JNum ''20''"
  using assms
  by (auto simp add: callTool_dispatch handleSearchUsers_def searchUsers_def client_get_def
        Let_def get_prop_Cons dflt_def template_None_iff template_literal
        split: outcome.split option.split)

text \<open>The request for call records.\<close>

lemma template_Some_iff:
  "(\<exists>y. template ps = Some y) \<longleftrightarrow> (\<forall>v. Val v \<in> set ps \<longrightarrow> printable v)"
  using template_None_iff [of ps] by auto

lemma get_cdr_records_requests:
  "snd (callTool t ''get_cdr_records'' (Some m)) =
     snd (getCDRRecords t
            [(''startDate'', get_prop m ''startDate''), (''endDate'', get_prop m ''endDate''),
             (''user'', get_prop m ''user''), (''domain'', get_prop m ''domain''),
             (''limit'', dflt (get_prop m ''limit'') (JNum ''100''))])"
  by (simp add: callTool_dispatch handleGetCDRRecords_def Let_def case_prod_beta
        split: option.split)

lemma getCDRRecords_sent:
  assumes "printable (get_prop p ''user'')" and "printable (get_prop p ''domain'')"
  shows "\<exists>u. snd (getCDRRecords t p) =
               [\<lparr>method = GET, url = u,
                  params = [(''start_time'', get_prop p ''startDate''),
                            (''end_time'', get_prop p ''endDate''),
                            (''limit'', js_or (get_prop p ''limit'') (JNum ''100''))]\<rparr>]"
proof -
  have "(if truthy (get_prop p ''user'') \<and> truthy (get_prop p ''domain'')
             then template [Lit ''/domains/'', Val (get_prop p ''domain''), Lit ''/users/'',
                            Val (get_prop p ''user''), Lit ''/cdrs'']
             else if truthy (get_prop p ''domain'')
             then template [Lit ''/domains/'', Val (get_prop p ''domain''), Lit ''/cdrs'']
             else template [Lit ''/cdrs'']) \<noteq> None"
    using assms by (simp add: template_Some_iff)
  then obtain e where e: "(if truthy (get_prop p ''user'') \<and> truthy (get_prop p ''domain'')
             then template [Lit ''/domains/'', Val (get_prop p ''domain''), Lit ''/users/'',
                            Val (get_prop p ''user''), Lit ''/cdrs'']
             else if truthy (get_prop p ''domain'')
             then template [Lit ''/domains/'', Val (get_prop p ''domain''), Lit ''/cdrs'']
             else template [Lit ''/cdrs'']) = Some e"
    by blast
  show ?thesis
    unfolding getCDRRecords_def Let_def e
    by (simp add: client_get_def Let_def split: outcome.split)
qed

lemma getCDRRecords_unsent:
  assumes "truthy (get_prop p ''domain'')" and "\<not> printable (get_prop p ''domain'')"
  shows "getCDRRecords t p =
           (\<lparr>success = False, data = JArr [], error = JStr cannot_convert,
             message = JUndefined\<rparr>, [])"
proof -
  have e: "(if truthy (get_prop p ''user'') \<and> truthy (get_prop p ''domain'')
             then template [Lit ''/domains/'', Val (get_prop p ''domain''), Lit ''/users/'',
                            Val (get_prop p ''user''), Lit ''/cdrs'']
             else if truthy (get_prop p ''domain'')
             then template [Lit ''/domains/'', Val (get_prop p ''domain''), Lit ''/cdrs'']
             else template [Lit ''/cdrs'']) = None"
    using assms by (auto simp add: template_None_iff)
  show ?thesis
    unfolding getCDRRecords_def Let_def e
    by (simp add: client_get_def js_or_def the_message_def cannot_convert_def)
qed

lemma get_cdr_records_limit:
  assumes "get_prop m ''limit'' = JUndefined"
    and "printable (get_prop m ''user'')" and "printable (get_prop m ''domain'')"
  shows "\<exists>req. snd (callTool t ''get_cdr_records'' (Some m)) = [req] \<and>
               get_prop (params req) ''limit'' = JNum ''100''"
proof -
  let ?p = "[(''startDate'', get_prop m ''startDate''), (''endDate'', get_prop m ''endDate''),
             (''user'', get_prop m ''user''), (''domain'', get_prop m ''domain''),
             (''limit'', dflt (get_prop m ''limit'') (JNum ''100''))]"
  have "printable (get_prop ?p ''user'')" and "printable (get_prop ?p ''domain'')"
    using assms(2,3) by (simp_all add: get_prop_Cons)
  from getCDRRecords_sent [OF this, of t] obtain u where
    "snd (getCDRRecords t ?p) =
       [\<lparr>method = GET, url = u,
          params = [(''start_time'', get_prop ?p ''startDate''),
                    (''end_time'', get_prop ?p ''endDate''),
                    (''limit'', js_or (get_prop ?p ''limit'') (JNum ''100''))]\<rparr>]" ..
  then show ?thesis
    using assms(1) by (simp add: get_cdr_records_requests get_prop_Cons dflt_def js_or_def)
qed

section \<open>The claims\<close>

text \<open>
  C1. No method of the client throws on a transport failure. Whatever method is called and
  whatever the rejection is, when the request of the method is rejected the method returns
  a result with \<open>success = false\<close>, with \<open>error\<close> the rejection's message, or the method's
  own fallback text when the message is missing or empty, and with \<open>data\<close> the empty value
  of the method's result type: the empty list for a method that returns a list,
  \<open>undefined\<close> for one that returns a single entity, \<open>false\<close> for the Boolean of
  \<open>testConnection\<close>. A method issues that one request whenever its arguments print, which
  they do when they are strings or numbers, the types that the methods declare. The only
  other failure is that of an argument that cannot be printed into the path: it is caught
  in the same way, before any request, and the result differs in the \<open>error\<close> only, which is
  the message of the \<open>TypeError\<close>.
\<close>

theorem gateway_failure_is_a_result:
  "((\<forall>v \<in> set (call_arguments c). printable v) \<longrightarrow> (\<exists>req. snd (invoke t c) = [req]))
   \<and> (\<forall>req e. snd (invoke t c) = [req] \<longrightarrow> t req = Rejected e \<longrightarrow>
        fst (invoke t c) =
          \<lparr>success = False, data = empty_value (kind_of c),
           error = (case e of None \<Rightarrow> JStr (fallback_text c)
                    | Some s \<Rightarrow> if s = [] then JStr (fallback_text c) else JStr s),
           message = JUndefined\<rparr>)
   \<and> (snd (invoke t c) = [] \<longrightarrow>
        fst (invoke t c) =
          \<lparr>success = False, data = empty_value (kind_of c),
           error = JStr cannot_convert, message = JUndefined\<rparr>)"
proof -
  have one: "\<exists>req. snd (invoke t c) = [req]" if "\<forall>v \<in> set (call_arguments c). printable v"
  proof -
    from that have "snd (invoke t c) \<noteq> []"
      by (rule invoke_sent)
    then show ?thesis
      by (cases t c rule: invoke_cases) simp_all
  qed
  have two: "fst (invoke t c) =
          \<lparr>success = False, data = empty_value (kind_of c),
           error = (case e of None \<Rightarrow> JStr (fallback_text c)
                    | Some s \<Rightarrow> if s = [] then JStr (fallback_text c) else JStr s),
           message = JUndefined\<rparr>"
    if "snd (invoke t c) = [req]" and "t req = Rejected e" for req e
  proof (cases t c rule: invoke_cases)
    case Unsent
    with that show ?thesis by simp
  next
    case (Answered r d)
    with that show ?thesis by simp
  next
    case (Failed r e')
    with that show ?thesis
      by (simp add: js_or_def the_message_def split: option.split)
  qed
  have three: "fst (invoke t c) =
          \<lparr>success = False, data = empty_value (kind_of c),
           error = JStr cannot_convert, message = JUndefined\<rparr>"
    if "snd (invoke t c) = []"
  proof (cases t c rule: invoke_cases)
    case Unsent
    then show ?thesis by simp
  next
    case (Answered r d)
    with that show ?thesis by simp
  next
    case (Failed r e')
    with that show ?thesis by simp
  qed
  from one two three show ?thesis by blast
qed

theorem gateway_failure_is_a_result_witness:
  "invoke (mock_failure None) (GetUserDevices (JStr ''alice'') (JStr ''example.com'')) =
     (\<lparr>success = False, data = JArr [], error = JStr ''Failed to get user devices'',
       message = JUndefined\<rparr>,
      [\<lparr>method = GET, url = ''/domains/example.com/users/alice/devices'', params = []\<rparr>])
   \<and> fst (invoke (mock_failure (Some ''timeout of 30000ms exceeded''))
              (GetUser (JStr ''alice'') (JStr ''example.com''))) =
     \<lparr>success = False, data = JUndefined, error = JStr ''timeout of 30000ms exceeded'',
      message = JUndefined\<rparr>
   \<and> invoke (mock_failure None) (GetDomain (JObj [(''toString'', JNum ''1'')])) =
     (\<lparr>success = False, data = JUndefined,
       error = JStr ''Cannot convert object to primitive value'', message = JUndefined\<rparr>, [])"
proof -
  let ?t = "mock_failure None"
  let ?c = "GetUserDevices (JStr ''alice'') (JStr ''example.com'')"
  let ?r = "\<lparr>method = GET, url = ''/domains/example.com/users/alice/devices'', params = []\<rparr>"
  have a: "snd (invoke ?t ?c) = [?r]"
    by (simp add: getUserDevices_def client_get_def template.simps mock_failure_def)
  have b: "?t ?r = Rejected None"
    by (simp add: mock_failure_def)
  let ?t2 = "mock_failure (Some ''timeout of 30000ms exceeded'')"
  let ?c2 = "GetUser (JStr ''alice'') (JStr ''example.com'')"
  let ?r2 = "\<lparr>method = GET, url = ''/domains/example.com/users/alice'', params = []\<rparr>"
  have a2: "snd (invoke ?t2 ?c2) = [?r2]"
    by (simp add: getUser_def client_get_def template.simps mock_failure_def)
  have b2: "?t2 ?r2 = Rejected (Some ''timeout of 30000ms exceeded'')"
    by (simp add: mock_failure_def)
  let ?c3 = "GetDomain (JObj [(''toString'', JNum ''1'')])"
  have a3: "snd (invoke ?t ?c3) = []"
    by (simp add: getDomain_def client_get_def template.simps)
  from gateway_failure_is_a_result [of ?c ?t] a b
  have "fst (invoke ?t ?c) =
      \<lparr>success = False, data = JArr [], error = JStr ''Failed to get user devices'',
       message = JUndefined\<rparr>"
    by simp
  moreover from gateway_failure_is_a_result [of ?c2 ?t2] a2 b2
  have "fst (invoke ?t2 ?c2) =
      \<lparr>success = False, data = JUndefined, error = JStr ''timeout of 30000ms exceeded'',
       message = JUndefined\<rparr>"
    by simp
  moreover from gateway_failure_is_a_result [of ?c3 ?t] a3
  have "fst (invoke ?t ?c3) =
      \<lparr>success = False, data = JUndefined,
       error = JStr ''Cannot convert object to primitive value'', message = JUndefined\<rparr>"
    by (simp add: cannot_convert_def)
  ultimately show ?thesis
    using a a3 by (simp add: prod_eq_iff)
qed

text \<open>
  C2. Take any tool of the catalog whose descriptor has required parameters, and any
  argument object in which one of them is absent or falsy. Then \<open>callTool\<close> throws an
  \<open>McpError\<close> with the code \<open>InvalidParams\<close>, whose message mentions every required field of
  the tool (the missing ones among them), and no request is issued. Second, an optional
  parameter for which the schema declares a default and which is absent from the arguments
  of a validated invocation is sent with that default: when the argument values print, so
  that the request is issued, the one request carries the default as the query parameter
  of the same name. The catalog declares two defaults, 20 for the \<open>limit\<close> of
  \<open>search_users\<close> and 100 for the \<open>limit\<close> of \<open>get_cdr_records\<close>.
\<close>

theorem missing_required_argument_is_refused:
  "(\<forall>d \<in> set listTools. \<forall>fs.
      required (inputSchema d) = Some fs \<longrightarrow> (\<exists>f \<in> set fs. \<not> truthy (get_prop m f)) \<longrightarrow>
      (\<exists>msg. callTool t (name d) (Some m) = (Inl (McpError InvalidParams msg), []) \<and>
             (\<forall>g \<in> set fs. mentions msg g)))
   \<and> (\<forall>d \<in> set listTools. \<forall>p sch v.
      (p, sch) \<in> set (properties (inputSchema d)) \<longrightarrow> prop_default sch = Some v \<longrightarrow>
      map_of m p = None \<longrightarrow> validated (name d) m \<longrightarrow> printable_arguments m \<longrightarrow>
      (\<exists>req. snd (callTool t (name d) (Some m)) = [req] \<and> get_prop (params req) p = v))"
proof -
  have "\<exists>msg. callTool t (name d) (Some m) = (Inl (McpError InvalidParams msg), []) \<and>
             (\<forall>g \<in> set fs. mentions msg g)"
    if d: "d \<in> set listTools" and fs: "required (inputSchema d) = Some fs"
      and missing: "\<exists>f \<in> set fs. \<not> truthy (get_prop m f)" for d fs
  proof -
    from fs have "required_fields d = fs"
      by (simp add: required_fields_def)
    with d have "(name d, fs) \<in> set (map (\<lambda>d. (name d, required_fields d)) listTools)"
      by force
    then have "(name d, fs) \<in> set spec_operation_table"
      by (simp only: catalog_table)
    then show ?thesis
      using missing by (rule callTool_invalid)
  qed
  moreover have "\<exists>req. snd (callTool t (name d) (Some m)) = [req] \<and> get_prop (params req) p = v"
    if d: "d \<in> set listTools" and p: "(p, sch) \<in> set (properties (inputSchema d))"
      and v: "prop_default sch = Some v" and absent: "map_of m p = None"
      and ok: "validated (name d) m" and pr: "printable_arguments m" for d p sch v
  proof -
    from absent have undef: "get_prop m p = JUndefined"
      by (rule get_prop_absent)
    from pr have dom: "printable (get_prop m ''domain'')" and usr: "printable (get_prop m ''user'')"
      by (simp_all add: printable_get_prop)
    from schema_default_cases [OF d p v] show ?thesis
    proof
      assume "(name d, p, v) = (''search_users'', ''limit'', JNum ''20'')"
      then have *: "name d = ''search_users''" "p = ''limit''" "v = JNum ''20''"
        by simp_all
      from ok have "truthy (get_prop m ''query'')"
        by (simp add: validated_iff *)
      then show ?thesis
        using undef dom search_users_limit [of m t] by (simp add: *)
    next
      assume "(name d, p, v) = (''get_cdr_records'', ''limit'', JNum ''100'')"
      then have *: "name d = ''get_cdr_records''" "p = ''limit''" "v = JNum ''100''"
        by simp_all
      show ?thesis
        using undef usr dom get_cdr_records_limit [of m t] by (simp add: *)
    qed
  qed
  ultimately show ?thesis by blast
qed

theorem missing_required_argument_is_refused_witness:
  "callTool (mock_response (JArr [])) ''login_agent''
      (Some [(''domain'', JStr ''example.com''), (''queueId'', JStr ''sales'')]) =
     (Inl (McpError InvalidParams ''domain, queueId, and agentId parameters are required''), [])
   \<and> mentions ''domain, queueId, and agentId parameters are required'' ''agentId''
   \<and> snd (callTool (mock_response (JArr [])) ''search_users'' (Some [(''query'', JStr ''john'')])) =
     [\<lparr>method = GET, url = ''/domains/~/users/~'',
       params = [(''user'', JStr ''john''), (''limit'', JNum ''20'')]\<rparr>]"
proof -
  let ?t = "mock_response (JArr [])"
  let ?m = "[(''domain'', JStr ''example.com''), (''queueId'', JStr ''sales'')]"
  let ?d = "\<lparr>name = ''login_agent'',
        description = ''Login an agent to a call queue'',
        inputSchema = \<lparr>schema_type = ''object'',
          properties =
           [(''domain'', \<lparr>prop_type = ''string'', prop_description = ''Domain name'',
              prop_default = None\<rparr>),
            (''queueId'', \<lparr>prop_type = ''string'', prop_description = ''Call queue ID'',
              prop_default = None\<rparr>),
            (''agentId'', \<lparr>prop_type = ''string'', prop_description = ''Agent ID'',
              prop_default = None\<rparr>)],
          required = Some [''domain'', ''queueId'', ''agentId'']\<rparr>\<rparr>"
  let ?fs = "[''domain'', ''queueId'', ''agentId'']"
  have d: "?d \<in> set listTools"
    by (simp add: listTools_def)
  have fs: "required (inputSchema ?d) = Some ?fs"
    by simp
  have missing: "\<exists>f \<in> set ?fs. \<not> truthy (get_prop ?m f)"
    by (simp add: get_prop_Cons get_prop_Nil)
  from missing_required_argument_is_refused [of ?m ?t] d fs missing
  have "\<exists>msg. callTool ?t (name ?d) (Some ?m) = (Inl (McpError InvalidParams msg), []) \<and>
             (\<forall>g \<in> set ?fs. mentions msg g)"
    by blast
  then obtain msg where
    msg: "callTool ?t ''login_agent'' (Some ?m) = (Inl (McpError InvalidParams msg), [])"
    and ment: "mentions msg ''agentId''"
    by auto
  have "callTool ?t ''login_agent'' (Some ?m) =
      (Inl (McpError InvalidParams ''domain, queueId, and agentId parameters are required''), [])"
    by (simp add: callTool_dispatch handleLoginAgent_def Let_def get_prop_Cons get_prop_Nil)
  with msg have eq: "msg = ''domain, queueId, and agentId parameters are required''"
    by simp
  let ?m2 = "[(''query'', JStr ''john'')]"
  let ?d2 = "\<lparr>name = ''search_users'',
        description = ''Search for users in the NetSapiens system'',
        inputSchema = \<lparr>schema_type = ''object'',
          properties =
           [(''query'', \<lparr>prop_type = ''string'',
              prop_description = ''Search query (username or partial username)'',
              prop_default = None\<rparr>),
            (''domain'', \<lparr>prop_type = ''string'',
              prop_description = ''Optional specific domain to search in'',
              prop_default = None\<rparr>),
            (''limit'', \<lparr>prop_type = ''number'',
              prop_description = ''Maximum number of results to return (default: 20)'',
              prop_default = Some (JNum ''20'')\<rparr>)],
          required = Some [''query'']\<rparr>\<rparr>"
  let ?sch = "\<lparr>prop_type = ''number'',
              prop_description = ''Maximum number of results to return (default: 20)'',
              prop_default = Some (JNum ''20'')\<rparr>"
  have d2: "?d2 \<in> set listTools"
    by (simp add: listTools_def)
  have p2: "(''limit'', ?sch) \<in> set (properties (inputSchema ?d2))"
    by simp
  have v2: "prop_default ?sch = Some (JNum ''20'')"
    by simp
  have absent2: "map_of ?m2 ''limit'' = None"
    by simp
  have ok2: "validated (name ?d2) ?m2"
    by (simp add: validated_iff get_prop_Cons)
  have pr2: "printable_arguments ?m2"
    by (simp add: printable_arguments_def printable_def)
  from missing_required_argument_is_refused [of ?m2 ?t] d2 p2 v2 absent2 ok2 pr2
  have "\<exists>req. snd (callTool ?t (name ?d2) (Some ?m2)) = [req] \<and>
              get_prop (params req) ''limit'' = JNum ''20''"
    by blast
  then have "\<exists>req. snd (callTool ?t ''search_users'' (Some ?m2)) = [req]"
    by auto
  moreover have "snd (callTool ?t ''search_users'' (Some ?m2)) =
     [\<lparr>method = GET, url = ''/domains/~/users/~'',
       params = [(''user'', JStr ''john''), (''limit'', JNum ''20'')]\<rparr>]"
    by (simp add: callTool_dispatch handleSearchUsers_def searchUsers_def client_get_def Let_def
          get_prop_Cons get_prop_Nil dflt_def mock_response_def template.simps case_prod_beta
          split: option.split)
  ultimately show ?thesis
    using msg ment eq by simp
qed

text \<open>
  C3. A name that is not in the catalog makes \<open>callTool\<close> throw an \<open>McpError\<close> with the code
  \<open>MethodNotFound\<close>, whose number differs from the one of \<open>InvalidParams\<close>, before any
  request. Conversely, when a validated invocation runs into a failure of the remote side
  (every request it issues is rejected), nothing is thrown: \<open>callTool\<close> returns a reply, and
  the first member of the serialized body is \<open>success: false\<close>. The reply comes after one
  request when the argument values print; an argument that cannot be printed into the path
  of the request is a failure of the method before any request, and is reported in the
  same way.
\<close>

theorem unknown_tool_and_remote_failure:
  "(nm \<notin> set (map name listTools) \<longrightarrow>
      callTool t nm args = (Inl (McpError MethodNotFound (''Unknown tool: '' @ nm)), []) \<and>
      code_number MethodNotFound \<noteq> code_number InvalidParams)
   \<and> (validated nm m \<longrightarrow>
        (\<forall>req \<in> set (snd (callTool t nm (Some m))). \<exists>e. t req = Rejected e) \<longrightarrow>
        (\<exists>props rest.
           fst (callTool t nm (Some m)) = Inr (text_reply (JSON_stringify props)) \<and>
           members props = (''success'', JBool False) # rest) \<and>
        (printable_arguments m \<longrightarrow> (\<exists>req. snd (callTool t nm (Some m)) = [req])))"
proof -
  have "callTool t nm args = (Inl (McpError MethodNotFound (''Unknown tool: '' @ nm)), [])"
    if "nm \<notin> set (map name listTools)"
    using that by (simp only: tool_names) (simp add: callTool_def)
  moreover have "\<exists>props rest.
           fst (callTool t nm (Some m)) = Inr (text_reply (JSON_stringify props)) \<and>
           members props = (''success'', JBool False) # rest"
    if ok: "validated nm m"
      and rejected: "\<forall>req \<in> set (snd (callTool t nm (Some m))). \<exists>e. t req = Rejected e"
  proof -
    from validated_call [OF ok] obtain c where c: "gateway_call_of nm m = Some c" ..
    note reqs = callTool_requests [OF ok c, of t]
    have failed: "\<not> success (fst (invoke t c))"
    proof (cases t c rule: invoke_cases)
      case Unsent
      then show ?thesis by simp
    next
      case (Answered req d)
      with rejected reqs show ?thesis by simp
    next
      case (Failed req e)
      then show ?thesis by simp
    qed
    let ?props = "\<lambda>msg. if nm = ''test_connection''
                 then [(''success'', JBool (success (fst (invoke t c)))), (''message'', msg),
                       (''error'', error (fst (invoke t c)))]
                 else [(''success'', JBool (success (fst (invoke t c)))), (''message'', msg),
                       (''data'', data (fst (invoke t c))),
                       (''error'', error (fst (invoke t c)))]"
    from callTool_shape [OF ok c, of t] failed obtain msg where
      "fst (callTool t nm (Some m)) = Inr (text_reply (JSON_stringify (?props msg)))"
      by blast
    moreover from failed
    have "members (?props msg) = (''success'', JBool False) # tl (members (?props msg))"
      by (simp add: members_Cons)
    ultimately show ?thesis by blast
  qed
  moreover have "\<exists>req. snd (callTool t nm (Some m)) = [req]"
    if "validated nm m" and "printable_arguments m"
    using that by (rule callTool_sent)
  ultimately show ?thesis by simp
qed

theorem unknown_tool_and_remote_failure_witness:
  "callTool (mock_failure (Some ''Request failed with status code 404'')) ''delete_user''
      (Some [(''userId'', JStr ''alice'')]) =
     (Inl (McpError MethodNotFound ''Unknown tool: delete_user''), [])
   \<and> (\<exists>props rest req.
         callTool (mock_failure (Some ''Request failed with status code 404'')) ''get_billing''
            (Some [(''domain'', JStr ''example.com'')]) =
           (Inr (text_reply (JSON_stringify props)), [req]) \<and>
         members props = (''success'', JBool False) # rest)"
proof -
  let ?t = "mock_failure (Some ''Request failed with status code 404'')"
  let ?m = "[(''domain'', JStr ''example.com'')]"
  have "''delete_user'' \<notin> set (map name listTools)"
    by (simp only: tool_names) simp
  with unknown_tool_and_remote_failure [of "''delete_user''" ?t "Some [(''userId'', JStr ''alice'')]"]
  have a: "callTool ?t ''delete_user'' (Some [(''userId'', JStr ''alice'')]) =
     (Inl (McpError MethodNotFound ''Unknown tool: delete_user''), [])"
    by simp
  have ok: "validated ''get_billing'' ?m"
    by (simp add: validated_iff get_prop_Cons)
  have pr: "printable_arguments ?m"
    by (simp add: printable_arguments_def printable_def)
  have "\<forall>req \<in> set (snd (callTool ?t ''get_billing'' (Some ?m))). \<exists>e. ?t req = Rejected e"
    by (simp add: mock_failure_def)
  with unknown_tool_and_remote_failure [of "''get_billing''" ?t _ ?m] ok pr
  have "(\<exists>props rest.
           fst (callTool ?t ''get_billing'' (Some ?m)) = Inr (text_reply (JSON_stringify props)) \<and>
           members props = (''success'', JBool False) # rest) \<and>
        (\<exists>req. snd (callTool ?t ''get_billing'' (Some ?m)) = [req])"
    by blast
  then have "\<exists>props rest req.
         callTool ?t ''get_billing'' (Some ?m) = (Inr (text_reply (JSON_stringify props)), [req]) \<and>
         members props = (''success'', JBool False) # rest"
    by (auto simp add: prod_eq_iff)
  with a show ?thesis by blast
qed




text \<open>
  C5. A method that returns a list, called with arguments that print, issues one request
  and accepts both shapes of a 2xx body: a body that is an array is the result's \<open>data\<close> as
  it is, any other body (a bare object in particular) is wrapped in a one-element list. In
  both cases \<open>success\<close> is true.
\<close>

theorem list_result_is_wrapped:
  assumes "kind_of c = ListResult" and "\<forall>v \<in> set (call_arguments c). printable v"
  shows "\<exists>req. snd (invoke t c) = [req] \<and>
           (\<forall>d. t req = Response d \<longrightarrow>
              success (fst (invoke t c)) \<and>
              (isArray d \<longrightarrow> data (fst (invoke t c)) = d) \<and>
              (\<not> isArray d \<longrightarrow> data (fst (invoke t c)) = JArr [d]))"
proof -
  from assms(2) have sent: "snd (invoke t c) \<noteq> []"
    by (rule invoke_sent)
  show ?thesis
  proof (cases t c rule: invoke_cases)
    case Unsent
    with sent show ?thesis by simp
  next
    case (Answered req d)
    with assms(1) show ?thesis by simp
  next
    case (Failed req e)
    then show ?thesis by simp
  qed
qed

theorem list_result_is_wrapped_witness:
  "data (fst (invoke (mock_response (JObj [(''device'', JStr ''sip:100@example.com'')]))
                (GetUserDevices (JStr ''100'') (JStr ''example.com''))))
     = JArr [JObj [(''device'', JStr ''sip:100@example.com'')]]
   \<and> data (fst (invoke (mock_response (JArr [JStr ''a'', JStr ''b'']))
                (SearchUsers (JStr ''john'') JUndefined JUndefined)))
     = JArr [JStr ''a'', JStr ''b'']"
proof -
  let ?d = "JObj [(''device'', JStr ''sip:100@example.com'')]"
  let ?c = "GetUserDevices (JStr ''100'') (JStr ''example.com'')"
  let ?d2 = "JArr [JStr ''a'', JStr ''b'']"
  let ?c2 = "SearchUsers (JStr ''john'') JUndefined JUndefined"
  have "kind_of ?c = ListResult" by simp
  moreover have "\<forall>v \<in> set (call_arguments ?c). printable v"
    by (simp add: printable_def)
  ultimately have a: "data (fst (invoke (mock_response ?d) ?c)) = JArr [?d]"
    using list_result_is_wrapped [of ?c "mock_response ?d"]
    by (auto simp add: isArray_def mock_response_def)
  have "kind_of ?c2 = ListResult" by simp
  moreover have "\<forall>v \<in> set (call_arguments ?c2). printable v"
    by (simp add: printable_def)
  ultimately have b: "data (fst (invoke (mock_response ?d2) ?c2)) = ?d2"
    using list_result_is_wrapped [of ?c2 "mock_response ?d2"]
    by (auto simp add: isArray_def mock_response_def)
  from a b show ?thesis by simp
qed

text \<open>
  C6. The catalog is a constant of the program: the handler of "list tools" takes no input
  and reads no state, so every call returns this same list. It has 23 descriptors, their
  names are pairwise distinct, and the names with their required fields are, in order, the
  rows of the specification's operation table (a descriptor without a \<open>required\<close> key
  requires nothing).
\<close>

theorem catalog_is_the_operation_table:
  "map (\<lambda>d. (name d, required_fields d)) listTools = spec_operation_table
   \<and> distinct (map name listTools)
   \<and> length listTools = 23"
proof -
  have "map name listTools = map fst (map (\<lambda>d. (name d, required_fields d)) listTools)"
    by simp
  then have "map name listTools = map fst spec_operation_table"
    by (simp only: catalog_table)
  then have "distinct (map name listTools)"
    by (simp add: spec_operation_table_def)
  moreover have "length listTools = length (map (\<lambda>d. (name d, required_fields d)) listTools)"
    by simp
  then have "length listTools = 23"
    by (simp only: catalog_table) (simp add: spec_operation_table_def)
  ultimately show ?thesis using catalog_table by simp
qed

text \<open>
  C7. \<open>get_cdr_records\<close> issues one GET request, whose path depends on the scope: the CDR
  endpoint of the user when both \<open>user\<close> and \<open>domain\<close> are given, the CDR endpoint of the
  domain when \<open>domain\<close> is given and \<open>user\<close> is not, and the global listing \<open>/cdrs\<close> when
  \<open>domain\<close> is not given. Its query parameters are always \<open>start_time\<close> (the argument
  \<open>startDate\<close>), \<open>end_time\<close> (the argument \<open>endDate\<close>) and \<open>limit\<close>, which is 100 when the
  argument is absent (or falsy). "Given" is "truthy", as the code tests it. The parameters
  are those of the object handed to the HTTP library: the value of \<open>start_time\<close> or
  \<open>end_time\<close> is \<open>undefined\<close> when the argument is absent, and what the library sends for an
  \<open>undefined\<close> parameter is outside the program. The statement is about an invocation with
  an argument object, in which the values that the path prints do print, as \<open>ds\<close> and \<open>us\<close>:
  the domain when it is given, the user when both are given. Without an argument object the
  invocation ends in an internal error (\<open>callTool_without_arguments\<close>), and a domain that
  cannot be printed makes the method fail before any request (\<open>getCDRRecords_unsent\<close>).
\<close>

theorem cdr_endpoint_by_scope:
  assumes "truthy (get_prop m ''domain'') \<longrightarrow> toStr (get_prop m ''domain'') = Some ds"
    and "truthy (get_prop m ''user'') \<and> truthy (get_prop m ''domain'') \<longrightarrow>
           toStr (get_prop m ''user'') = Some us"
  shows "\<exists>reply req.
     callTool t ''get_cdr_records'' (Some m) = (Inr reply, [req])
     \<and> method req = GET
     \<and> (truthy (get_prop m ''user'') \<and> truthy (get_prop m ''domain'') \<longrightarrow>
          url req = ''/domains/'' @ ds @ ''/users/'' @ us @ ''/cdrs'')
     \<and> (\<not> truthy (get_prop m ''user'') \<and> truthy (get_prop m ''domain'') \<longrightarrow>
          url req = ''/domains/'' @ ds @ ''/cdrs'')
     \<and> (\<not> truthy (get_prop m ''domain'') \<longrightarrow> url req = ''/cdrs'')
     \<and> params req =
          [(''start_time'', get_prop m ''startDate''), (''end_time'', get_prop m ''endDate''),
           (''limit'', if truthy (get_prop m ''limit'') then get_prop m ''limit''
                       else JNum ''100'')]"
proof -
  let ?p = "[(''startDate'', get_prop m ''startDate''), (''endDate'', get_prop m ''endDate''),
             (''user'', get_prop m ''user''), (''domain'', get_prop m ''domain''),
             (''limit'', dflt (get_prop m ''limit'') (JNum ''100''))]"
  let ?u = "if truthy (get_prop m ''user'') \<and> truthy (get_prop m ''domain'')
            then ''/domains/'' @ ds @ ''/users/'' @ us @ ''/cdrs''
            else if truthy (get_prop m ''domain'') then ''/domains/'' @ ds @ ''/cdrs''
            else ''/cdrs''"
  let ?req = "\<lparr>method = GET, url = ?u,
               params = [(''start_time'', get_prop m ''startDate''),
                         (''end_time'', get_prop m ''endDate''),
                         (''limit'', if truthy (get_prop m ''limit'') then get_prop m ''limit''
                                     else JNum ''100'')]\<rparr>"
  have endpoint: "(if truthy (get_prop ?p ''user'') \<and> truthy (get_prop ?p ''domain'')
             then template [Lit ''/domains/'', Val (get_prop ?p ''domain''), Lit ''/users/'',
                            Val (get_prop ?p ''user''), Lit ''/cdrs'']
             else if truthy (get_prop ?p ''domain'')
             then template [Lit ''/domains/'', Val (get_prop ?p ''domain''), Lit ''/cdrs'']
             else template [Lit ''/cdrs'']) = Some ?u"
    using assms by (simp add: get_prop_Cons template.simps)
  have limit: "js_or (get_prop ?p ''limit'') (JNum ''100'') =
                 (if truthy (get_prop m ''limit'') then get_prop m ''limit'' else JNum ''100'')"
    by (simp add: get_prop_Cons dflt_def js_or_def)
  have call: "getCDRRecords t ?p =
      (case t ?req of
         Response d \<Rightarrow>
           \<lparr>success = True, data = (if isArray d then d else JArr [d]), error = JUndefined,
            message = JUndefined\<rparr>
       | Rejected e \<Rightarrow>
           \<lparr>success = False, data = JArr [],
            error = js_or (the_message e) (JStr ''Failed to get CDR records''),
            message = JUndefined\<rparr>,
       [?req])"
    unfolding getCDRRecords_def Let_def endpoint limit
    by (simp add: client_get_def Let_def get_prop_Cons split: outcome.split)
  have printed: "printable (error (fst (getCDRRecords t ?p)))"
    using printable_error [of t "GetCDRRecords ?p"] by simp
  have counted: "printable (js_or (opt_length (data (fst (getCDRRecords t ?p)))) (JNum ''0''))"
    using printable_list_count [of "GetCDRRecords ?p" t] by simp
  have "\<exists>reply. handleGetCDRRecords t (Some m) = (Inr reply, snd (getCDRRecords t ?p))"
    using printed counted
    by (auto simp add: handleGetCDRRecords_def Let_def case_prod_beta template_None_iff
          split: option.split)
  then have "\<exists>reply. callTool t ''get_cdr_records'' (Some m) = (Inr reply, [?req])"
    by (auto simp add: callTool_dispatch call)
  then show ?thesis
    by auto
qed

theorem cdr_endpoint_by_scope_witness:
  "snd (callTool (mock_response (JArr [])) ''get_cdr_records''
          (Some [(''user'', JStr ''100''), (''domain'', JStr ''example.com'')])) =
     [\<lparr>method = GET, url = ''/domains/example.com/users/100/cdrs'',
       params = [(''start_time'', JUndefined), (''end_time'', JUndefined),
                 (''limit'', JNum ''100'')]\<rparr>]
   \<and> snd (callTool (mock_response (JArr [])) ''get_cdr_records''
          (Some [(''domain'', JStr ''example.com''), (''startDate'', JStr ''2024-01-01''),
                 (''limit'', JNum ''5'')])) =
     [\<lparr>method = GET, url = ''/domains/example.com/cdrs'',
       params = [(''start_time'', JStr ''2024-01-01''), (''end_time'', JUndefined),
                 (''limit'', JNum ''5'')]\<rparr>]
   \<and> snd (callTool (mock_response (JArr [])) ''get_cdr_records'' (Some [])) =
     [\<lparr>method = GET, url = ''/cdrs'',
       params = [(''start_time'', JUndefined), (''end_time'', JUndefined),
                 (''limit'', JNum ''100'')]\<rparr>]"
proof -
  let ?t = "mock_response (JArr [])"
  let ?m1 = "[(''user'', JStr ''100''), (''domain'', JStr ''example.com'')]"
  let ?m2 = "[(''domain'', JStr ''example.com''), (''startDate'', JStr ''2024-01-01''),
              (''limit'', JNum ''5'')]"
  have "snd (callTool ?t ''get_cdr_records'' (Some ?m1)) =
     [\<lparr>method = GET, url = ''/domains/example.com/users/100/cdrs'',
       params = [(''start_time'', JUndefined), (''end_time'', JUndefined),
                 (''limit'', JNum ''100'')]\<rparr>]"
    using cdr_endpoint_by_scope [of ?m1 "''example.com''" "''100''" ?t]
    by (auto simp add: get_prop_Cons get_prop_Nil request.equality)
  moreover have "snd (callTool ?t ''get_cdr_records'' (Some ?m2)) =
     [\<lparr>method = GET, url = ''/domains/example.com/cdrs'',
       params = [(''start_time'', JStr ''2024-01-01''), (''end_time'', JUndefined),
                 (''limit'', JNum ''5'')]\<rparr>]"
    using cdr_endpoint_by_scope [of ?m2 "''example.com''" "''undefined''" ?t]
    by (auto simp add: get_prop_Cons get_prop_Nil request.equality)
  moreover have "snd (callTool ?t ''get_cdr_records'' (Some [])) =
     [\<lparr>method = GET, url = ''/cdrs'',
       params = [(''start_time'', JUndefined), (''end_time'', JUndefined),
                 (''limit'', JNum ''100'')]\<rparr>]"
    using cdr_endpoint_by_scope [of "[]" "''undefined''" "''undefined''" ?t]
    by (auto simp add: get_prop_Nil request.equality)
  ultimately show ?thesis by blast
qed

text \<open>
  C8. \<open>testConnection\<close> issues one request, the one of \<open>getDomains\<close> with the query parameter
  \<open>limit = 1\<close>, and looks at nothing but whether it is answered: for any 2xx body, an empty
  list of domains included, the result has \<open>success = true\<close> and \<open>data = true\<close>; when the
  request is rejected it has \<open>success = false\<close> and \<open>data = false\<close>.
\<close>

theorem test_connection_reports_reachability:
  "snd (testConnection t) = [\<lparr>method = GET, url = ''/domains'', params = [(''limit'', JNum ''1'')]\<rparr>]
   \<and> snd (getDomains t) = [\<lparr>method = GET, url = ''/domains'', params = []\<rparr>]
   \<and> (\<forall>d. t \<lparr>method = GET, url = ''/domains'', params = [(''limit'', JNum ''1'')]\<rparr> = Response d \<longrightarrow>
          success (fst (testConnection t)) \<and> data (fst (testConnection t)) = JBool True)
   \<and> (\<forall>e. t \<lparr>method = GET, url = ''/domains'', params = [(''limit'', JNum ''1'')]\<rparr> = Rejected e \<longrightarrow>
          \<not> success (fst (testConnection t)) \<and> data (fst (testConnection t)) = JBool False)"
  by (simp add: testConnection_def getDomains_def client_get_def Let_def template_literal
        split: outcome.split)

theorem test_connection_reports_reachability_witness:
  "fst (testConnection (mock_response (JArr []))) =
     \<lparr>success = True, data = JBool True, error = JUndefined,
      message = JStr ''Connection successful''\<rparr>
   \<and> fst (testConnection (mock_failure (Some ''Network Error''))) =
     \<lparr>success = False, data = JBool False, error = JStr ''Network Error'',
      message = JUndefined\<rparr>"
proof -
  let ?p = "\<lparr>method = GET, url = ''/domains'', params = [(''limit'', JNum ''1'')]\<rparr>"
  have "mock_response (JArr []) ?p = Response (JArr [])"
    by (simp add: mock_response_def)
  with test_connection_reports_reachability [of "mock_response (JArr [])"]
  have a: "success (fst (testConnection (mock_response (JArr []))))
         \<and> data (fst (testConnection (mock_response (JArr [])))) = JBool True"
    by blast
  have "mock_failure (Some ''Network Error'') ?p = Rejected (Some ''Network Error'')"
    by (simp add: mock_failure_def)
  with test_connection_reports_reachability [of "mock_failure (Some ''Network Error'')"]
  have b: "\<not> success (fst (testConnection (mock_failure (Some ''Network Error''))))
         \<and> data (fst (testConnection (mock_failure (Some ''Network Error'')))) = JBool False"
    by blast
  have c: "error (fst (testConnection (mock_response (JArr [])))) = JUndefined
      \<and> message (fst (testConnection (mock_response (JArr [])))) = JStr ''Connection successful''
      \<and> error (fst (testConnection (mock_failure (Some ''Network Error'')))) = JStr ''Network Error''
      \<and> message (fst (testConnection (mock_failure (Some ''Network Error'')))) = JUndefined"
    by (simp add: testConnection_def client_get_def Let_def mock_response_def mock_failure_def
          js_or_def the_message_def template_literal)
  from a b c show ?thesis
    by (simp add: api_response.equality)
qed

text \<open>
  C9. When \<open>get_cdr_records\<close> is called with a \<open>user\<close> but without a \<open>domain\<close>, the call is
  not refused: a reply is returned, the one request goes to \<open>/cdrs\<close>, and its query
  parameters are those of the dates and the limit. The user is in no part of it: the whole
  outcome, request and reply, is the one of any invocation that differs in the \<open>user\<close>
  argument only, the invocation without \<open>user\<close> among them.
\<close>

theorem cdr_user_without_domain_is_ignored:
  assumes "truthy (get_prop m ''user'')"
    and "\<not> truthy (get_prop m ''domain'')"
    and "\<forall>k. k \<noteq> ''user'' \<longrightarrow> get_prop m' k = get_prop m k"
  shows "(\<exists>reply. callTool t ''get_cdr_records'' (Some m) =
            (Inr reply,
             [\<lparr>method = GET, url = ''/cdrs'',
               params = [(''start_time'', get_prop m ''startDate''),
                         (''end_time'', get_prop m ''endDate''),
                         (''limit'', if truthy (get_prop m ''limit'') then get_prop m ''limit''
                                     else JNum ''100'')]\<rparr>]))
         \<and> callTool t ''get_cdr_records'' (Some m') = callTool t ''get_cdr_records'' (Some m)"
proof -
  let ?p = "\<lambda>m. [(''startDate'', get_prop m ''startDate''), (''endDate'', get_prop m ''endDate''),
             (''user'', get_prop m ''user''), (''domain'', get_prop m ''domain''),
             (''limit'', dflt (get_prop m ''limit'') (JNum ''100''))]"
  let ?req = "\<lparr>method = GET, url = ''/cdrs'',
               params = [(''start_time'', get_prop m ''startDate''),
                         (''end_time'', get_prop m ''endDate''),
                         (''limit'', if truthy (get_prop m ''limit'') then get_prop m ''limit''
                                     else JNum ''100'')]\<rparr>"
  have call: "getCDRRecords t (?p m) =
      (case t ?req of
         Response d \<Rightarrow>
           \<lparr>success = True, data = (if isArray d then d else JArr [d]), error = JUndefined,
            message = JUndefined\<rparr>
       | Rejected e \<Rightarrow>
           \<lparr>success = False, data = JArr [],
            error = js_or (the_message e) (JStr ''Failed to get CDR records''),
            message = JUndefined\<rparr>,
       [?req])"
    using assms(2)
    by (simp add: getCDRRecords_def client_get_def Let_def get_prop_Cons dflt_def js_or_def
          template_literal split: outcome.split)
  from assms(3) have same: "get_prop m' ''startDate'' = get_prop m ''startDate''"
    "get_prop m' ''endDate'' = get_prop m ''endDate''"
    "get_prop m' ''domain'' = get_prop m ''domain''"
    "get_prop m' ''limit'' = get_prop m ''limit''"
    by simp_all
  have other: "getCDRRecords t (?p m') = getCDRRecords t (?p m)"
    using assms(2)
    by (simp add: getCDRRecords_def client_get_def Let_def get_prop_Cons same)
  have printed: "printable (error (fst (getCDRRecords t (?p m))))"
    using printable_error [of t "GetCDRRecords (?p m)"] by simp
  have counted: "printable (js_or (opt_length (data (fst (getCDRRecords t (?p m))))) (JNum ''0''))"
    using printable_list_count [of "GetCDRRecords (?p m)" t] by simp
  have "\<exists>reply. handleGetCDRRecords t (Some m) = (Inr reply, snd (getCDRRecords t (?p m)))"
    using printed counted
    by (auto simp add: handleGetCDRRecords_def Let_def case_prod_beta template_None_iff
          split: option.split)
  then have first: "\<exists>reply. callTool t ''get_cdr_records'' (Some m) = (Inr reply, [?req])"
    by (auto simp add: callTool_dispatch call)
  have "handleGetCDRRecords t (Some m') = handleGetCDRRecords t (Some m)"
    unfolding handleGetCDRRecords_def option.case Let_def other ..
  then have "callTool t ''get_cdr_records'' (Some m') = callTool t ''get_cdr_records'' (Some m)"
    by (simp add: callTool_dispatch)
  with first show ?thesis ..
qed

theorem cdr_user_without_domain_is_ignored_witness:
  "snd (callTool (mock_response (JArr [])) ''get_cdr_records''
          (Some [(''user'', JStr ''100''), (''endDate'', JStr ''2024-02-01'')])) =
     [\<lparr>method = GET, url = ''/cdrs'',
       params = [(''start_time'', JUndefined), (''end_time'', JStr ''2024-02-01''),
                 (''limit'', JNum ''100'')]\<rparr>]
   \<and> callTool (mock_response (JArr [])) ''get_cdr_records''
          (Some [(''endDate'', JStr ''2024-02-01'')]) =
       callTool (mock_response (JArr [])) ''get_cdr_records''
          (Some [(''user'', JStr ''100''), (''endDate'', JStr ''2024-02-01'')])"
proof -
  let ?m = "[(''user'', JStr ''100''), (''endDate'', JStr ''2024-02-01'')]"
  let ?m' = "[(''endDate'', JStr ''2024-02-01'')]"
  have 1: "truthy (get_prop ?m ''user'')"
    by (simp add: get_prop_Cons)
  have 2: "\<not> truthy (get_prop ?m ''domain'')"
    by (simp add: get_prop_Cons get_prop_Nil)
  have 3: "\<forall>k. k \<noteq> ''user'' \<longrightarrow> get_prop ?m' k = get_prop ?m k"
    by (simp add: get_prop_Cons get_prop_Nil)
  from cdr_user_without_domain_is_ignored [OF 1 2 3, of "mock_response (JArr [])"]
  show ?thesis
    by (auto simp add: get_prop_Cons get_prop_Nil)
qed



end
